theory Spec2Isabelle
  imports Main "HOL-Library.Sublist"
begin

section \<open>Host values: strings\<close>

text \<open>
  The sources are JavaScript.  A JavaScript string is modelled as a \<open>string\<close>, a list of
  8-bit characters, so the model speaks about ASCII text: where JavaScript counts UTF-16
  code units, the model counts bytes.  The string methods the sources call are written out
  here: \<open>startsWith\<close>, \<open>includes\<close>, \<open>substring(0, n)\<close>, \<open>slice(n)\<close>, \<open>toLowerCase\<close>,
  \<open>trim\<close> and \<open>split("\n")\<close>.
\<close>

definition startsWith :: "string \<Rightarrow> string \<Rightarrow> bool" where
  "startsWith s p = prefix p s"

fun str_includes :: "string \<Rightarrow> string \<Rightarrow> bool" where
  "str_includes [] t = (t = [])"
| "str_includes (c # cs) t = (prefix t (c # cs) \<or> str_includes cs t)"

definition substring0 :: "string \<Rightarrow> nat \<Rightarrow> string" where
  "substring0 s n = take n s"

definition slice_from :: "string \<Rightarrow> nat \<Rightarrow> string" where
  "slice_from s n = drop n s"

definition lower_char :: "char \<Rightarrow> char" where
  "lower_char c =
     (case map_of (zip ''ABCDEFGHIJKLMNOPQRSTUVWXYZ'' ''abcdefghijklmnopqrstuvwxyz'') c of
        None \<Rightarrow> c
      | Some l \<Rightarrow> l)"

definition toLowerCase :: "string \<Rightarrow> string" where
  "toLowerCase s = map lower_char s"

definition is_space :: "char \<Rightarrow> bool" where
  \<comment> \<open>the ASCII members of JavaScript's white space and line terminators\<close>
  "is_space c = (c \<in> set [CHR '' '', CHR 0x09, CHR 0x0A, CHR 0x0B, CHR 0x0C, CHR 0x0D])"

definition trim :: "string \<Rightarrow> string" where
  "trim s = rev (dropWhile is_space (rev (dropWhile is_space s)))"

definition newline :: char where
  "newline = CHR 0x0A"

fun split_lines :: "string \<Rightarrow> string list" where
  "split_lines [] = [[]]"
| "split_lines (c # cs) =
     (if c = newline then [] # split_lines cs
      else (case split_lines cs of [] \<Rightarrow> [[c]] | l # ls \<Rightarrow> (c # l) # ls))"

definition digit_char :: "nat \<Rightarrow> char" where
  "digit_char d = ''0123456789'' ! d"

function show_nat :: "nat \<Rightarrow> string" where
  "show_nat n = (if n < 10 then [digit_char n] else show_nat (n div 10) @ [digit_char (n mod 10)])"
  by pat_completeness auto
termination
  by (relation "measure id") auto

declare show_nat.simps [simp del]

definition show_int :: "int \<Rightarrow> string" where
  "show_int i = (if i < 0 then CHR ''-'' # show_nat (nat (- i)) else show_nat (nat i))"

section \<open>Host values: JSON\<close>

text \<open>
  The values that \<open>JSON.parse\<close> returns.  Numbers are the integers: a number literal with
  a fraction or an exponent is outside the modelled fragment.  An object keeps its members
  in insertion order, one member per key.  A JavaScript value that may be \<open>undefined\<close> is
  a \<open>json option\<close>, \<open>None\<close> being \<open>undefined\<close>.
\<close>

datatype json =
    JNull
  | JBool bool
  | JNum int
  | JStr string
  | JArr "json list"
  | JObj "(string \<times> json) list"

type_synonym jsval = "json option"

fun truthy :: "json \<Rightarrow> bool" where
  "truthy JNull = False"
| "truthy (JBool b) = b"
| "truthy (JNum n) = (n \<noteq> 0)"
| "truthy (JStr s) = (s \<noteq> [])"
| "truthy (JArr xs) = True"
| "truthy (JObj kvs) = True"

fun truthy_val :: "jsval \<Rightarrow> bool" where
  "truthy_val None = False"
| "truthy_val (Some j) = truthy j"

text \<open>\<open>a || b\<close> on values.\<close>

definition or_else :: "jsval \<Rightarrow> jsval \<Rightarrow> jsval" where
  "or_else a b = (if truthy_val a then a else b)"

text \<open>
  Reading a named property.  The sources read only names that no built-in prototype
  defines (\<open>error\<close>, \<open>message\<close>, \<open>choices\<close>, \<open>delta\<close>, \<open>content\<close>, \<open>id\<close>, \<open>model\<close>, \<open>name\<close>,
  \<open>data\<close>, \<open>models\<close>, \<open>token\<close>, \<open>expires_at\<close>, \<open>expiresAt\<close>, \<open>storedAt\<close>, ...), so every
  value but an object answers \<open>undefined\<close>.  Reading a property of \<open>null\<close> or \<open>undefined\<close>
  throws a TypeError; the optional chain \<open>?.\<close> answers \<open>undefined\<close> there instead.
\<close>

fun own_prop :: "json \<Rightarrow> string \<Rightarrow> jsval" where
  "own_prop (JObj kvs) k = map_of kvs k"
| "own_prop _ k = None"

datatype js_error = Error string | TypeError string

fun message :: "js_error \<Rightarrow> string" where
  "message (Error m) = m"
| "message (TypeError m) = m"

fun get_prop :: "jsval \<Rightarrow> string \<Rightarrow> js_error + jsval" where
  "get_prop None k = Inl (TypeError (''undefined has no properties''))"
| "get_prop (Some JNull) k = Inl (TypeError (''null has no properties''))"
| "get_prop (Some j) k = Inr (own_prop j k)"

fun opt_prop :: "jsval \<Rightarrow> string \<Rightarrow> jsval" where
  "opt_prop None k = None"
| "opt_prop (Some JNull) k = None"
| "opt_prop (Some j) k = own_prop j k"

text \<open>The optional element read \<open>v?.[0]\<close>.\<close>

fun opt_first :: "jsval \<Rightarrow> jsval" where
  "opt_first (Some (JArr xs)) = (case xs of [] \<Rightarrow> None | x # _ \<Rightarrow> Some x)"
| "opt_first (Some (JStr s)) = (case s of [] \<Rightarrow> None | c # _ \<Rightarrow> Some (JStr [c]))"
| "opt_first (Some (JObj kvs)) = map_of kvs ''0''"
| "opt_first _ = None"

fun join_with :: "string \<Rightarrow> string list \<Rightarrow> string" where
  "join_with sep [] = []"
| "join_with sep [x] = x"
| "join_with sep (x # y # ys) = x @ sep @ join_with sep (y # ys)"

text \<open>\<open>String(v)\<close>, as a template literal, \<open>+=\<close> on a string and \<open>new Error(v)\<close> apply it.\<close>

fun js_string :: "json \<Rightarrow> string" where
  "js_string JNull = ''null''"
| "js_string (JBool b) = (if b then ''true'' else ''false'')"
| "js_string (JNum n) = show_int n"
| "js_string (JStr s) = s"
| "js_string (JArr xs) = join_with '','' (map (\<lambda>x. if x = JNull then [] else js_string x) xs)"
| "js_string (JObj kvs) = ''[object Object]''"

fun js_string_val :: "jsval \<Rightarrow> string" where
  "js_string_val None = ''undefined''"
| "js_string_val (Some j) = js_string j"

text \<open>
  \<open>Number(v)\<close>, as the relational operators and \<open>-\<close> apply it; \<open>None\<close> is NaN.  A string
  converts when it is a decimal integer literal (white space around it allowed); the other
  numeric string forms are outside the modelled fragment.
\<close>

definition is_digit :: "char \<Rightarrow> bool" where
  "is_digit c = (c \<in> set ''0123456789'')"

definition digit_val :: "char \<Rightarrow> nat" where
  "digit_val c =
     (case map_of (zip ''0123456789'' [0, 1, 2, 3, 4, 5, 6, 7, 8, 9]) c of None \<Rightarrow> 0 | Some d \<Rightarrow> d)"

definition digits_val :: "string \<Rightarrow> nat" where
  "digits_val ds = foldl (\<lambda>acc c. 10 * acc + digit_val c) 0 ds"

definition string_to_number :: "string \<Rightarrow> int option" where
  "string_to_number s =
     (let t = trim s in
      if t = [] then Some 0
      else if hd t = CHR ''-'' \<and> tl t \<noteq> [] \<and> list_all is_digit (tl t) then Some (- int (digits_val (tl t)))
      else if hd t = CHR ''+'' \<and> tl t \<noteq> [] \<and> list_all is_digit (tl t) then Some (int (digits_val (tl t)))
      else if list_all is_digit t then Some (int (digits_val t))
      else None)"

fun to_number :: "jsval \<Rightarrow> int option" where
  "to_number None = None"
| "to_number (Some JNull) = Some 0"
| "to_number (Some (JBool b)) = Some (if b then 1 else 0)"
| "to_number (Some (JNum n)) = Some n"
| "to_number (Some (JStr s)) = string_to_number s"
| "to_number (Some j) = string_to_number (js_string j)"

text \<open>\<open>a > b\<close> with a number on one side: false as soon as a side is NaN.\<close>

definition num_gt :: "int option \<Rightarrow> int option \<Rightarrow> bool" where
  "num_gt a b = (case (a, b) of (Some x, Some y) \<Rightarrow> x > y | _ \<Rightarrow> False)"


subsection \<open>\<open>JSON.parse\<close> and \<open>JSON.stringify\<close>\<close>

text \<open>
  The host's two JSON functions, for ASCII texts with integer numbers.  \<open>JSON_parse\<close>
  answers \<open>None\<close> where \<open>JSON.parse\<close> throws a SyntaxError.  The parser is a recursive
  descent with fuel; every call consumes a character before it recurses, so the length of
  the text is fuel enough.  An object that names a key twice keeps the key's first place
  and its last value, as JavaScript does.
\<close>

definition dquote :: char where
  "dquote = CHR 0x22"

definition backslash :: char where
  "backslash = CHR 0x5C"

definition control_chars :: string where
  "control_chars =
     [CHR 0x00, CHR 0x01, CHR 0x02, CHR 0x03, CHR 0x04, CHR 0x05, CHR 0x06, CHR 0x07,
      CHR 0x08, CHR 0x09, CHR 0x0A, CHR 0x0B, CHR 0x0C, CHR 0x0D, CHR 0x0E, CHR 0x0F,
      CHR 0x10, CHR 0x11, CHR 0x12, CHR 0x13, CHR 0x14, CHR 0x15, CHR 0x16, CHR 0x17,
      CHR 0x18, CHR 0x19, CHR 0x1A, CHR 0x1B, CHR 0x1C, CHR 0x1D, CHR 0x1E, CHR 0x1F]"

definition simple_escapes :: "(char \<times> char) list" where
  \<comment> \<open>the letter after the backslash, and the character it stands for\<close>
  "simple_escapes =
     [(dquote, dquote), (backslash, backslash), (CHR ''/'', CHR ''/''),
      (CHR ''b'', CHR 0x08), (CHR ''f'', CHR 0x0C), (CHR ''n'', CHR 0x0A),
      (CHR ''r'', CHR 0x0D), (CHR ''t'', CHR 0x09)]"

definition hex_digits :: string where
  "hex_digits = ''0123456789abcdef''"

definition hex_val :: "char \<Rightarrow> nat option" where
  "hex_val c =
     (if lower_char c \<in> set hex_digits
      then Some (length (takeWhile (\<lambda>d. d \<noteq> lower_char c) hex_digits)) else None)"

text \<open>\<open>\uXXXX\<close>: the escapes of the control characters, which is what \<open>JSON.stringify\<close> writes.\<close>

definition unicode_escape :: "string \<Rightarrow> char option" where
  "unicode_escape hs =
     (case map hex_val hs of
        [Some a, Some b, Some c, Some d] \<Rightarrow>
          (if a = 0 \<and> b = 0 \<and> 16 * c + d < 32 then Some (control_chars ! (16 * c + d)) else None)
      | _ \<Rightarrow> None)"

function parse_chars :: "string \<Rightarrow> (string \<times> string) option" where
  "parse_chars [] = None"
| "parse_chars (c # cs) =
     (if c = dquote then Some ([], cs)
      else if c = backslash then
        (case cs of
           [] \<Rightarrow> None
         | e # r \<Rightarrow>
             (if e = CHR ''u'' then
                (case unicode_escape (take 4 r) of
                   None \<Rightarrow> None
                 | Some ch \<Rightarrow>
                     (case parse_chars (drop 4 r) of
                        None \<Rightarrow> None
                      | Some (s, t) \<Rightarrow> Some (ch # s, t)))
              else
                (case map_of simple_escapes e of
                   None \<Rightarrow> None
                 | Some ch \<Rightarrow>
                     (case parse_chars r of
                        None \<Rightarrow> None
                      | Some (s, t) \<Rightarrow> Some (ch # s, t)))))
      else if c \<in> set control_chars then None
      else (case parse_chars cs of None \<Rightarrow> None | Some (s, t) \<Rightarrow> Some (c # s, t)))"
  by pat_completeness auto
termination
  by (relation "measure length") auto

definition is_json_ws :: "char \<Rightarrow> bool" where
  "is_json_ws c = (c \<in> set [CHR '' '', CHR 0x09, CHR 0x0A, CHR 0x0D])"

definition skip_ws :: "string \<Rightarrow> string" where
  "skip_ws s = dropWhile is_json_ws s"

text \<open>An integer literal: \<open>-?(0|[1-9][0-9]*)\<close>, with no fraction or exponent after it.\<close>

definition parse_number :: "string \<Rightarrow> (json \<times> string) option" where
  "parse_number s =
     (let neg = (s \<noteq> [] \<and> hd s = CHR ''-'');
          body = (if neg then tl s else s);
          ds = takeWhile is_digit body;
          rest = dropWhile is_digit body
      in if ds = [] then None
         else if hd ds = CHR ''0'' \<and> tl ds \<noteq> [] then None
         else if rest \<noteq> [] \<and> hd rest \<in> set ''.eE'' then None
         else Some (JNum (if neg then - int (digits_val ds) else int (digits_val ds)), rest))"

definition obj_put :: "(string \<times> json) list \<Rightarrow> string \<Rightarrow> json \<Rightarrow> (string \<times> json) list" where
  "obj_put kvs k v =
     (if k \<in> fst ` set kvs then map (\<lambda>(k', v'). if k' = k then (k', v) else (k', v')) kvs
      else kvs @ [(k, v)])"

fun parse_value :: "nat \<Rightarrow> string \<Rightarrow> (json \<times> string) option"
and parse_elements :: "nat \<Rightarrow> string \<Rightarrow> json list \<Rightarrow> (json \<times> string) option"
and parse_members :: "nat \<Rightarrow> string \<Rightarrow> (string \<times> json) list \<Rightarrow> (json \<times> string) option"
where
  "parse_value 0 s = None"
| "parse_value (Suc n) s =
     (case skip_ws s of
        [] \<Rightarrow> None
      | c # cs \<Rightarrow>
          (if c = CHR ''{'' then
             (case skip_ws cs of
                [] \<Rightarrow> None
              | d # ds \<Rightarrow> if d = CHR ''}'' then Some (JObj [], ds) else parse_members n (d # ds) [])
           else if c = CHR ''['' then
             (case skip_ws cs of
                [] \<Rightarrow> None
              | d # ds \<Rightarrow> if d = CHR '']'' then Some (JArr [], ds) else parse_elements n (d # ds) [])
           else if c = dquote then
             (case parse_chars cs of None \<Rightarrow> None | Some (str, r) \<Rightarrow> Some (JStr str, r))
           else if prefix ''true'' (c # cs) then Some (JBool True, drop 4 (c # cs))
           else if prefix ''false'' (c # cs) then Some (JBool False, drop 5 (c # cs))
           else if prefix ''null'' (c # cs) then Some (JNull, drop 4 (c # cs))
           else parse_number (c # cs)))"
| "parse_elements 0 s acc = None"
| "parse_elements (Suc n) s acc =
     (case parse_value n s of
        None \<Rightarrow> None
      | Some (v, r) \<Rightarrow>
          (case skip_ws r of
             [] \<Rightarrow> None
           | c # cs \<Rightarrow>
               (if c = CHR '','' then parse_elements n cs (acc @ [v])
                else if c = CHR '']'' then Some (JArr (acc @ [v]), cs)
                else None)))"
| "parse_members 0 s acc = None"
| "parse_members (Suc n) s acc =
     (case skip_ws s of
        [] \<Rightarrow> None
      | q # cs \<Rightarrow>
          (if q \<noteq> dquote then None
           else
             (case parse_chars cs of
                None \<Rightarrow> None
              | Some (k, r) \<Rightarrow>
                  (case skip_ws r of
                     [] \<Rightarrow> None
                   | c # r1 \<Rightarrow>
                       (if c \<noteq> CHR '':'' then None
                        else
                          (case parse_value n r1 of
                             None \<Rightarrow> None
                           | Some (v, r2) \<Rightarrow>
                               (case skip_ws r2 of
                                  [] \<Rightarrow> None
                                | e # t \<Rightarrow>
                                    (if e = CHR '','' then parse_members n t (obj_put acc k v)
                                     else if e = CHR ''}'' then Some (JObj (obj_put acc k v), t)
                                     else None))))))))"

definition JSON_parse :: "string \<Rightarrow> json option" where
  "JSON_parse s =
     (case parse_value (Suc (length s)) s of
        None \<Rightarrow> None
      | Some (v, r) \<Rightarrow> if skip_ws r = [] then Some v else None)"

definition escape_char :: "char \<Rightarrow> string" where
  "escape_char c =
     (if c = dquote then [backslash, dquote]
      else if c = backslash then [backslash, backslash]
      else if c = CHR 0x08 then [backslash, CHR ''b'']
      else if c = CHR 0x09 then [backslash, CHR ''t'']
      else if c = CHR 0x0A then [backslash, CHR ''n'']
      else if c = CHR 0x0C then [backslash, CHR ''f'']
      else if c = CHR 0x0D then [backslash, CHR ''r'']
      else if c \<in> set control_chars then
        (let n = length (takeWhile (\<lambda>d. d \<noteq> c) control_chars)
         in [backslash, CHR ''u'', CHR ''0'', CHR ''0'', hex_digits ! (n div 16), hex_digits ! (n mod 16)])
      else [c])"

definition quote :: "string \<Rightarrow> string" where
  "quote s = dquote # concat (map escape_char s) @ [dquote]"

fun JSON_stringify :: "json \<Rightarrow> string"
and stringify_elements :: "json list \<Rightarrow> string"
and stringify_members :: "(string \<times> json) list \<Rightarrow> string"
where
  "JSON_stringify JNull = ''null''"
| "JSON_stringify (JBool b) = (if b then ''true'' else ''false'')"
| "JSON_stringify (JNum n) = show_int n"
| "JSON_stringify (JStr s) = quote s"
| "JSON_stringify (JArr xs) = CHR ''['' # stringify_elements xs @ '']''"
| "JSON_stringify (JObj kvs) = CHR ''{'' # stringify_members kvs @ ''}''"
| "stringify_elements [] = []"
| "stringify_elements (x # xs) =
     JSON_stringify x @ (if xs = [] then [] else CHR '','' # stringify_elements xs)"
| "stringify_members [] = []"
| "stringify_members ((k, v) # kvs) =
     quote k @ CHR '':'' # JSON_stringify v @ (if kvs = [] then [] else CHR '','' # stringify_members kvs)"


subsection \<open>What \<open>JSON.stringify\<close> writes, \<open>JSON.parse\<close> reads back\<close>

text \<open>
  A value whose objects name each key once comes back from \<open>JSON_parse\<close> as it went into
  \<open>JSON_stringify\<close>.  The proof follows the printer: digits, then escaped strings, then
  values with their elements and members.
\<close>

lemma digit_cases: "d < 10 \<Longrightarrow> d = 0 \<or> d = 1 \<or> d = 2 \<or> d = 3 \<or> d = 4 \<or> d = 5 \<or> d = 6 \<or> d = 7 \<or> d = 8 \<or> d = (9::nat)"
  by arith

lemma digit_char_props:
  assumes "d < 10"
  shows "is_digit (digit_char d)" and "digit_val (digit_char d) = d"
    and "digit_char d = CHR ''0'' \<longleftrightarrow> d = 0"
  using digit_cases [OF assms]
  by (auto simp: is_digit_def digit_char_def digit_val_def)

lemma show_nat_nonempty: "show_nat n \<noteq> []"
  by (subst show_nat.simps) simp

lemma show_nat_digits: "list_all is_digit (show_nat n)"
proof (induction n rule: show_nat.induct)
  case (1 n)
  show ?case
    by (subst show_nat.simps) (use 1 in \<open>auto simp: digit_char_props\<close>)
qed

lemma digits_val_snoc: "digits_val (ds @ [c]) = 10 * digits_val ds + digit_val c"
  by (simp add: digits_val_def)

lemma digits_val_show_nat: "digits_val (show_nat n) = n"
proof (induction n rule: show_nat.induct)
  case (1 n)
  show ?case
  proof (cases "n < 10")
    case True
    then show ?thesis
      by (subst show_nat.simps) (simp add: digits_val_def digit_char_props)
  next
    case False
    with 1 show ?thesis
      by (subst show_nat.simps) (simp add: digits_val_snoc digit_char_props)
  qed
qed

lemma show_nat_hd: "0 < n \<Longrightarrow> hd (show_nat n) \<noteq> CHR ''0''"
proof (induction n rule: show_nat.induct)
  case (1 n)
  show ?case
  proof (cases "n < 10")
    case True
    with 1(2) show ?thesis
      by (subst show_nat.simps) (simp add: digit_char_props)
  next
    case False
    then have "0 < n div 10" by simp
    with 1 False show ?thesis
      by (subst show_nat.simps) (simp add: show_nat_nonempty)
  qed
qed

lemma show_nat_0: "show_nat 0 = ''0''"
  by (subst show_nat.simps) (simp add: digit_char_def)

definition follow_ok :: "string \<Rightarrow> bool" where
  "follow_ok rest \<longleftrightarrow> rest = [] \<or> hd rest \<in> set '',]}''"

lemma follow_ok_not_digit: "follow_ok rest \<Longrightarrow> rest \<noteq> [] \<Longrightarrow> \<not> is_digit (hd rest) \<and> hd rest \<notin> set ''.eE''"
  by (auto simp: follow_ok_def is_digit_def)

lemma takeWhile_digits:
  assumes "list_all is_digit ds" "follow_ok rest"
  shows "takeWhile is_digit (ds @ rest) = ds" "dropWhile is_digit (ds @ rest) = rest"
proof -
  have r: "takeWhile is_digit rest = []" "dropWhile is_digit rest = rest"
    using follow_ok_not_digit [OF assms(2)] by (cases rest; simp)+
  from assms(1) have "\<forall>x\<in>set ds. is_digit x" by (simp add: list_all_iff)
  then show "takeWhile is_digit (ds @ rest) = ds" "dropWhile is_digit (ds @ rest) = rest"
    using r by (simp_all add: takeWhile_append2 dropWhile_append2)
qed

lemma minus_not_digit: "\<not> is_digit (CHR ''-'')"
  by (simp add: is_digit_def)

lemma parse_number_show_int:
  assumes "follow_ok rest"
  shows "parse_number (show_int i @ rest) = Some (JNum i, rest)"
proof (cases "i < 0")
  case True
  let ?n = "nat (- i)"
  have pos: "0 < ?n" using True by simp
  have hd0: "hd (show_nat ?n) \<noteq> CHR ''0''" using show_nat_hd [OF pos] .
  have val: "- int (digits_val (show_nat ?n)) = i" using True by (simp add: digits_val_show_nat)
  show ?thesis
    using True hd0 val follow_ok_not_digit [OF assms]
    by (auto simp: parse_number_def show_int_def Let_def show_nat_nonempty
          takeWhile_digits [OF show_nat_digits assms])
next
  case False
  let ?n = "nat i"
  have d: "is_digit (hd (show_nat ?n))"
    using show_nat_digits [of ?n] show_nat_nonempty [of ?n] by (cases "show_nat ?n") auto
  then have nm: "hd (show_nat ?n) \<noteq> CHR ''-''" using minus_not_digit by auto
  have hd_app: "hd (show_nat ?n @ rest) = hd (show_nat ?n)" by (simp add: show_nat_nonempty)
  have zero: "hd (show_nat ?n) = CHR ''0'' \<Longrightarrow> tl (show_nat ?n) = []"
    using show_nat_hd [of ?n] show_nat_0 by (cases "?n = 0") auto
  have val: "int (digits_val (show_nat ?n)) = i" using False by (simp add: digits_val_show_nat)
  show ?thesis
    using False nm zero val follow_ok_not_digit [OF assms]
    by (auto simp: parse_number_def show_int_def Let_def show_nat_nonempty hd_app
          takeWhile_digits [OF show_nat_digits assms])
qed

lemma parse_chars_escape_controls:
  "\<forall>c\<in>set control_chars. parse_chars (escape_char c @ r)
         = (case parse_chars r of None \<Rightarrow> None | Some (s, t) \<Rightarrow> Some (c # s, t))"
  unfolding control_chars_def
  by (simp add: escape_char_def dquote_def backslash_def simple_escapes_def
        unicode_escape_def hex_val_def hex_digits_def lower_char_def control_chars_def)

lemma parse_chars_escape:
  "parse_chars (escape_char c @ r)
   = (case parse_chars r of None \<Rightarrow> None | Some (s, t) \<Rightarrow> Some (c # s, t))"
proof (cases "c \<in> set control_chars")
  case True
  then show ?thesis using parse_chars_escape_controls by blast
next
  case False
  then have e: "escape_char c = (if c = dquote then [backslash, dquote]
      else if c = backslash then [backslash, backslash] else [c])"
    by (auto simp: escape_char_def control_chars_def)
  show ?thesis
  proof (cases "c = dquote \<or> c = backslash")
    case True
    then show ?thesis
      unfolding e by (auto simp: dquote_def backslash_def simple_escapes_def)
  next
    case other: False
    with False show ?thesis
      unfolding e by simp
  qed
qed

lemma parse_chars_quoted:
  "parse_chars (concat (map escape_char s) @ dquote # rest) = Some (s, rest)"
  by (induction s) (simp_all add: parse_chars_escape)

lemma parse_chars_quote:
  "parse_chars (tl (quote s) @ rest) = Some (s, rest)"
  by (simp add: quote_def parse_chars_quoted)

fun wf_json :: "json \<Rightarrow> bool" where
  "wf_json (JArr xs) = list_all wf_json xs"
| "wf_json (JObj kvs) = (distinct (map fst kvs) \<and> list_all (\<lambda>(k, v). wf_json v) kvs)"
| "wf_json _ = True"

lemma is_digit_not_ws: "is_digit c \<Longrightarrow> \<not> is_json_ws c"
  by (auto simp: is_digit_def is_json_ws_def)

definition value_start :: "char \<Rightarrow> bool" where
  "value_start c \<longleftrightarrow> \<not> is_json_ws c \<and> c \<noteq> CHR '']'' \<and> c \<noteq> CHR ''}'' \<and> c \<noteq> CHR '','' \<and> c \<noteq> CHR '':''"

lemma show_int_head:
  "\<exists>c cs. show_int i = c # cs \<and> (c = CHR ''-'' \<or> is_digit c)"
proof (cases "i < 0")
  case True
  then show ?thesis by (simp add: show_int_def)
next
  case False
  obtain c cs where s: "show_nat (nat i) = c # cs"
    using show_nat_nonempty [of "nat i"] by (cases "show_nat (nat i)") auto
  with show_nat_digits [of "nat i"] have "is_digit c" by simp
  with s False show ?thesis by (simp add: show_int_def)
qed

lemma stringify_head:
  "\<exists>c cs. JSON_stringify v = c # cs \<and> value_start c"
proof (cases v)
  case (JNum i)
  obtain c cs where "show_int i = c # cs" "c = CHR ''-'' \<or> is_digit c"
    using show_int_head by blast
  then show ?thesis using JNum
    by (auto simp: value_start_def is_json_ws_def is_digit_def)
qed (auto simp: value_start_def is_json_ws_def quote_def dquote_def)

lemma skip_ws_start: "value_start c \<Longrightarrow> skip_ws (c # cs) = c # cs"
  by (simp add: skip_ws_def value_start_def)

lemma skip_ws_punct [simp]:
  "skip_ws (CHR '','' # cs) = CHR '','' # cs"
  "skip_ws (CHR '']'' # cs) = CHR '']'' # cs"
  "skip_ws (CHR ''}'' # cs) = CHR ''}'' # cs"
  "skip_ws (CHR '':'' # cs) = CHR '':'' # cs"
  "skip_ws (dquote # cs) = dquote # cs"
  "skip_ws (CHR ''{'' # cs) = CHR ''{'' # cs"
  "skip_ws (CHR ''['' # cs) = CHR ''['' # cs"
  "skip_ws [] = []"
  by (simp_all add: skip_ws_def is_json_ws_def dquote_def)

lemma follow_ok_simps [simp]:
  "follow_ok []" "follow_ok (CHR '','' # cs)" "follow_ok (CHR '']'' # cs)" "follow_ok (CHR ''}'' # cs)"
  by (simp_all add: follow_ok_def)

lemma parse_value_number:
  assumes "follow_ok rest"
  shows "parse_value (Suc m) (show_int i @ rest) = Some (JNum i, rest)"
proof -
  obtain c cs where s: "show_int i = c # cs" and c: "c = CHR ''-'' \<or> is_digit c"
    using show_int_head by blast
  from c have start: "value_start c" by (auto simp: value_start_def is_json_ws_def is_digit_def)
  from c have ne: "c \<noteq> CHR ''{''" "c \<noteq> CHR ''[''" "c \<noteq> dquote" "c \<noteq> CHR ''t''" "c \<noteq> CHR ''f''" "c \<noteq> CHR ''n''"
    by (auto simp: is_digit_def dquote_def)
  have "parse_number (c # cs @ rest) = Some (JNum i, rest)"
    using parse_number_show_int [OF assms, of i] s by simp
  then show ?thesis
    using s ne by (simp add: skip_ws_start [OF start])
qed

lemma obj_put_fresh: "k \<notin> fst ` set acc \<Longrightarrow> obj_put acc k v = acc @ [(k, v)]"
  by (simp add: obj_put_def)

lemma roundtrip_aux:
  "wf_json v \<Longrightarrow> length (JSON_stringify v) < n \<Longrightarrow> follow_ok rest
     \<Longrightarrow> parse_value n (JSON_stringify v @ rest) = Some (v, rest)"
  "list_all wf_json xs \<Longrightarrow> xs \<noteq> [] \<Longrightarrow> length (stringify_elements xs) + 1 < n
     \<Longrightarrow> parse_elements n (stringify_elements xs @ CHR '']'' # rest) acc = Some (JArr (acc @ xs), rest)"
  "list_all (\<lambda>(k, v). wf_json v) kvs \<Longrightarrow> distinct (map fst (kacc @ kvs)) \<Longrightarrow> kvs \<noteq> []
     \<Longrightarrow> length (stringify_members kvs) + 1 < n
     \<Longrightarrow> parse_members n (stringify_members kvs @ CHR ''}'' # rest) kacc = Some (JObj (kacc @ kvs), rest)"
proof (induction v and xs and kvs arbitrary: n rest and n rest acc and n rest kacc
       rule: JSON_stringify_stringify_elements_stringify_members.induct)
  case 1
  then obtain m where "n = Suc m" by (cases n) auto
  then show ?case by (simp add: skip_ws_def is_json_ws_def dquote_def)
next
  case (2 b)
  then obtain m where "n = Suc m" by (cases n) auto
  then show ?case by (simp add: skip_ws_def is_json_ws_def dquote_def)
next
  case (3 i)
  then obtain m where n: "n = Suc m" by (cases n) auto
  have "parse_value (Suc m) (show_int i @ rest) = Some (JNum i, rest)"
    using 3 by (intro parse_value_number)
  then show ?case using n by (simp del: parse_value.simps)
next
  case (4 s)
  then obtain m where "n = Suc m" by (cases n) auto
  then show ?case
    using parse_chars_quoted [of s rest]
    by (simp add: quote_def dquote_def [symmetric]) (simp add: dquote_def)
next
  case (5 xs)
  then obtain m where n: "n = Suc m" by (cases n) auto
  show ?case
  proof (cases "xs = []")
    case True
    then show ?thesis using n by (simp add: skip_ws_def is_json_ws_def)
  next
    case False
    then obtain x xs' where xs: "xs = x # xs'" by (cases xs) auto
    obtain c cs where h: "JSON_stringify x = c # cs" "value_start c"
      using stringify_head by blast
    have el: "parse_elements m (stringify_elements xs @ CHR '']'' # rest) [] = Some (JArr ([] @ xs), rest)"
      using 5 False n by (intro "5.IH") auto
    have sk: "skip_ws (stringify_elements xs @ CHR '']'' # rest) = c # (cs @ (if xs' = [] then [] else CHR '','' # stringify_elements xs') @ CHR '']'' # rest)"
      using xs h by (simp add: skip_ws_start)
    have "c \<noteq> CHR '']''" using h(2) by (simp add: value_start_def)
    then show ?thesis
      using n el sk xs h by (simp add: skip_ws_def is_json_ws_def)
  qed
next
  case (6 kvs)
  then obtain m where n: "n = Suc m" by (cases n) auto
  show ?case
  proof (cases "kvs = []")
    case True
    then show ?thesis using n by (simp add: skip_ws_def is_json_ws_def)
  next
    case False
    then obtain k v kvs' where kvs: "kvs = (k, v) # kvs'" by (cases kvs) auto
    have el: "parse_members m (stringify_members kvs @ CHR ''}'' # rest) [] = Some (JObj ([] @ kvs), rest)"
      using 6 False n by (intro "6.IH") auto
    have "dquote \<noteq> CHR ''}''" by (simp add: dquote_def)
    then show ?thesis
      using n el kvs by (simp add: quote_def)
  qed
next
  case 7
  then show ?case by simp
next
  case (8 x xs)
  then obtain m where n: "n = Suc m" by (cases n) auto
  obtain c cs where h: "JSON_stringify x = c # cs" "value_start c"
    using stringify_head by blast
  let ?rest1 = "(if xs = [] then [] else CHR '','' # stringify_elements xs) @ CHR '']'' # rest"
  have len: "length (JSON_stringify x) < m"
    using "8.prems" n by simp
  have pv: "parse_value m (JSON_stringify x @ ?rest1) = Some (x, ?rest1)"
    using "8.prems" len by (intro "8.IH"(1)) (auto simp: follow_ok_def)
  show ?case
  proof (cases "xs = []")
    case True
    then show ?thesis using n pv by simp
  next
    case False
    have "length (stringify_elements xs) + 1 < m"
      using "8.prems" n h False by simp
    then have "parse_elements m (stringify_elements xs @ CHR '']'' # rest) (acc @ [x])
               = Some (JArr ((acc @ [x]) @ xs), rest)"
      using "8.prems" False by (intro "8.IH"(2)) auto
    then show ?thesis using n pv False by simp
  qed
next
  case 9
  then show ?case by simp
next
  case (10 k v kvs)
  then obtain m where n: "n = Suc m" by (cases n) auto
  let ?rest1 = "(if kvs = [] then [] else CHR '','' # stringify_members kvs) @ CHR ''}'' # rest"
  have len: "length (JSON_stringify v) < m"
    using "10.prems" n by (simp add: quote_def)
  have pv: "parse_value m (JSON_stringify v @ ?rest1) = Some (v, ?rest1)"
    using "10.prems" len by (intro "10.IH"(1)) (auto simp: follow_ok_def)
  have key: "parse_chars (concat (map escape_char k) @ dquote # CHR '':'' # JSON_stringify v @ ?rest1)
             = Some (k, CHR '':'' # JSON_stringify v @ ?rest1)"
    by (rule parse_chars_quoted)
  have fresh: "obj_put kacc k v = kacc @ [(k, v)]"
    using "10.prems" by (intro obj_put_fresh) auto
  show ?case
  proof (cases "kvs = []")
    case True
    then show ?thesis using n pv key fresh by (simp add: quote_def)
  next
    case False
    have "length (stringify_members kvs) + 1 < m"
      using "10.prems" n False by (simp add: quote_def)
    then have "parse_members m (stringify_members kvs @ CHR ''}'' # rest) (kacc @ [(k, v)])
               = Some (JObj ((kacc @ [(k, v)]) @ kvs), rest)"
      using "10.prems" False by (intro "10.IH"(2)) auto
    then show ?thesis using n pv key fresh False by (simp add: quote_def)
  qed
qed

lemma JSON_roundtrip:
  assumes "wf_json v"
  shows "JSON_parse (JSON_stringify v) = Some v"
  using roundtrip_aux(1) [OF assms, of "Suc (length (JSON_stringify v))" "[]"]
  by (simp add: JSON_parse_def)

section \<open>The host: clock, login manager, network\<close>

text \<open>
  Everything the add-on reaches outside itself is a field of one \<open>world\<close>: the clock that
  \<open>Date.now()\<close> reads, the logins that \<open>nsILoginManager\<close> holds (and whether the service
  answers at all), the replies the network is going to give, and the mutable properties of
  the add-on's own objects (\<open>_cachedModels\<close>, \<open>_cachedModelsAt\<close>, \<open>FALLBACK_MODELS\<close>,
  \<open>currentFlow\<close>).  The requests issued and the callbacks invoked are logged, oldest first.
\<close>

record login =
  hostname :: string
  httpRealm :: string
  username :: string
  password :: string

record response =
  status :: nat
  statusText :: string
  chunks :: "string list"   \<comment> \<open>the body, in the pieces the stream reader delivers\<close>
  x_model :: "string option"   \<comment> \<open>the \<open>x-model\<close> header\<close>

datatype reply = Rejects string | Resolves response

datatype temperature = Given json | Default_0_3

record chat_body =
  b_model :: jsval
  b_messages :: "json list"
  b_stream :: bool
  b_temperature :: temperature
  b_max_tokens :: json

datatype payload = NoBody | Json json | ChatBody chat_body

record request =
  url :: string
  http_method :: string
  headers :: "(string \<times> string) list"
  body :: payload

record flow =
  deviceCode :: jsval
  userCode :: jsval
  verificationUri :: jsval
  expiresIn :: jsval
  interval :: json
  startTime :: int

record world =
  clock :: int
  lm_available :: bool
  logins :: "login list"
  net :: "(nat \<times> reply) list"   \<comment> \<open>the coming replies, each with the milliseconds it takes\<close>
  sent :: "request list"
  cachedModels :: "json list option"
  cachedModelsAt :: int
  fallbackModels :: "string list"
  currentFlow :: "flow option"
  pref_temperature :: jsval
  pref_maxTokens :: jsval
  chunk_calls :: "(json \<times> string) list"   \<comment> \<open>the calls of \<open>onChunk(delta, accumulated)\<close>\<close>
  status_calls :: "string list"   \<comment> \<open>the calls of \<open>onStatusUpdate(status)\<close>\<close>

text \<open>
  An operation runs in a world and ends in a world, with a value or with the exception it
  threw.  \<open>andThen\<close> is sequencing (an \<open>await\<close>, or the next statement), \<open>try_catch\<close> is
  \<open>try { ... } catch (error) { ... }\<close>.
\<close>

type_synonym 'a io = "world \<Rightarrow> (js_error + 'a) \<times> world"

definition return :: "'a \<Rightarrow> 'a io" where
  "return a w = (Inr a, w)"

definition throw :: "js_error \<Rightarrow> 'a io" where
  "throw e w = (Inl e, w)"

definition andThen :: "'a io \<Rightarrow> ('a \<Rightarrow> 'b io) \<Rightarrow> 'b io" where
  "andThen m f w = (case m w of (Inl e, w1) \<Rightarrow> (Inl e, w1) | (Inr a, w1) \<Rightarrow> f a w1)"

definition try_catch :: "'a io \<Rightarrow> (js_error \<Rightarrow> 'a io) \<Rightarrow> 'a io" where
  "try_catch m h w = (case m w of (Inl e, w1) \<Rightarrow> h e w1 | (Inr a, w1) \<Rightarrow> (Inr a, w1))"

definition lift :: "js_error + 'a \<Rightarrow> 'a io" where
  "lift r w = (r, w)"

definition now :: "int io" where
  "now w = (Inr (clock w), w)"

definition ok :: "response \<Rightarrow> bool" where
  "ok r = (200 \<le> status r \<and> status r \<le> 299)"

definition body_text :: "response \<Rightarrow> string" where
  \<comment> \<open>\<open>response.text()\<close>\<close>
  "body_text r = concat (chunks r)"

definition fetch :: "request \<Rightarrow> response io" where
  "fetch rq w =
     (case net w of
        [] \<Rightarrow> (Inl (TypeError ''NetworkError when attempting to fetch resource.''),
               w\<lparr>sent := sent w @ [rq]\<rparr>)
      | (ms, r) # rest \<Rightarrow>
          ((case r of Rejects m \<Rightarrow> Inl (TypeError m) | Resolves resp \<Rightarrow> Inr resp),
           w\<lparr>clock := clock w + int ms, net := rest, sent := sent w @ [rq]\<rparr>))"

text \<open>
  The login manager is a list of logins behind a service that either answers or throws on
  every call; the validity rules of the host's \<open>addLogin\<close> are not modelled.
\<close>

definition findLogins :: "string \<Rightarrow> string \<Rightarrow> login list io" where
  "findLogins host realm w =
     (if lm_available w
      then (Inr (filter (\<lambda>l. hostname l = host \<and> httpRealm l = realm) (logins w)), w)
      else (Inl (Error ''login manager unavailable''), w))"

definition addLogin :: "login \<Rightarrow> unit io" where
  "addLogin l w =
     (if lm_available w then (Inr (), w\<lparr>logins := logins w @ [l]\<rparr>)
      else (Inl (Error ''login manager unavailable''), w))"

definition removeLogin :: "login \<Rightarrow> unit io" where
  "removeLogin l w =
     (if lm_available w then (Inr (), w\<lparr>logins := filter (\<lambda>x. x \<noteq> l) (logins w)\<rparr>)
      else (Inl (Error ''login manager unavailable''), w))"

section \<open>Token storage (\<open>tokenStorage.js\<close>)\<close>

definition HOSTNAME :: string where
  "HOSTNAME = ''chrome://zotero-ai-assistant''"

definition GITHUB_COPILOT :: string where
  "GITHUB_COPILOT = ''GitHub Copilot OAuth Token''"

definition GITHUB_COPILOT_SESSION :: string where
  "GITHUB_COPILOT_SESSION = ''GitHub Copilot Session Token''"

definition createLoginInfo :: "string \<Rightarrow> string \<Rightarrow> string \<Rightarrow> login" where
  "createLoginInfo realm user pass =
     \<lparr>hostname = HOSTNAME, httpRealm = realm, username = user, password = pass\<rparr>"

record token_record =
  token :: string
  metadata :: json

fun for_each :: "('a \<Rightarrow> unit io) \<Rightarrow> 'a list \<Rightarrow> unit io" where
  "for_each f [] = return ()"
| "for_each f (x # xs) = andThen (f x) (\<lambda>_. for_each f xs)"

definition removeToken :: "string \<Rightarrow> bool io" where
  "removeToken realm =
     try_catch
       (andThen (findLogins HOSTNAME realm) (\<lambda>found.
        andThen (for_each removeLogin found) (\<lambda>_.
        return True)))
       (\<lambda>error. return False)"

definition storeToken :: "string \<Rightarrow> string \<Rightarrow> (string \<times> json) list \<Rightarrow> bool io" where
  "storeToken realm tok meta =
     try_catch
       (andThen (removeToken realm) (\<lambda>_.
        andThen now (\<lambda>t.
        andThen (addLogin (createLoginInfo realm
                   (JSON_stringify (JObj (obj_put meta ''storedAt'' (JNum t)))) tok)) (\<lambda>_.
        return True))))
       (\<lambda>error. return False)"

definition getToken :: "string \<Rightarrow> token_record option io" where
  "getToken realm =
     try_catch
       (andThen (findLogins HOSTNAME realm) (\<lambda>found.
        case found of
          [] \<Rightarrow> return None
        | l # _ \<Rightarrow>
            return (Some \<lparr>token = password l,
                          metadata = (case JSON_parse (username l) of None \<Rightarrow> JObj [] | Some j \<Rightarrow> j)\<rparr>)))
       (\<lambda>error. return None)"

text \<open>\<open>maxAge\<close> is \<open>null\<close> when the caller leaves it out.\<close>

definition hasValidToken :: "string \<Rightarrow> json \<Rightarrow> bool io" where
  "hasValidToken realm maxAge =
     andThen (getToken realm) (\<lambda>result.
     case result of
       None \<Rightarrow> return False
     | Some r \<Rightarrow>
         \<comment> \<open>\<open>maxAge && result.metadata.storedAt\<close>: the property is read only under a truthy \<open>maxAge\<close>\<close>
         andThen (if truthy maxAge then lift (get_prop (Some (metadata r)) ''storedAt'') else return None)
           (\<lambda>storedAt.
         andThen now (\<lambda>t1.
         if truthy maxAge \<and> truthy_val storedAt
            \<and> num_gt (map_option (\<lambda>n. t1 - n) (to_number storedAt)) (to_number (Some maxAge))
         then return False
         else
           andThen (lift (get_prop (Some (metadata r)) ''expiresAt'')) (\<lambda>expiresAt.
           andThen now (\<lambda>t2.
           if truthy_val expiresAt \<and> num_gt (Some t2) (to_number expiresAt)
           then return False
           else return True)))))"

section \<open>Device flow (\<open>GitHubDeviceFlow\<close>)\<close>

definition CLIENT_ID :: string where
  "CLIENT_ID = ''Iv1.b507a08c87ecfe98''"

definition ACCESS_TOKEN_URL :: string where
  "ACCESS_TOKEN_URL = ''https://github.com/login/oauth/access_token''"

definition COPILOT_TOKEN_URL :: string where
  "COPILOT_TOKEN_URL = ''https://api.github.com/copilot_internal/v2/token''"

definition DEFAULT_INTERVAL :: int where
  "DEFAULT_INTERVAL = 5000"

record copilot_token =
  ct_token :: json
  ct_expiresAt :: "int option"   \<comment> \<open>\<open>None\<close> is NaN\<close>

definition copilot_token_request :: "string \<Rightarrow> request" where
  "copilot_token_request accessToken =
     \<lparr>url = COPILOT_TOKEN_URL, http_method = ''GET'',
      headers = [(''Authorization'', ''Bearer '' @ accessToken),
                 (''Accept'', ''application/json''),
                 (''Editor-Version'', ''vscode/1.96.0''),
                 (''Editor-Plugin-Version'', ''copilot-chat/0.24.0''),
                 (''User-Agent'', ''GitHubCopilotChat/0.24.0'')],
      body = NoBody\<rparr>"

definition getCopilotToken :: "string \<Rightarrow> copilot_token io" where
  "getCopilotToken accessToken =
     try_catch
       (andThen (fetch (copilot_token_request accessToken)) (\<lambda>resp.
        if \<not> ok resp then
          (if status resp = 401 then
             throw (Error ''GitHub token is invalid or expired. Please re-authenticate.'')
           else if status resp = 403 then
             throw (Error ''You do not have access to GitHub Copilot. Please ensure you have an active subscription.'')
           else if status resp = 404 then
             throw (Error ''GitHub Copilot is not enabled for your account. Please check your subscription.'')
           else
             andThen
               (try_catch
                  (if startsWith (trim (body_text resp)) ''{'' then
                     (case JSON_parse (trim (body_text resp)) of
                        None \<Rightarrow> throw (Error ''JSON.parse: unexpected character'')
                      | Some j \<Rightarrow>
                          throw (Error (js_string_val
                            (or_else (or_else (opt_prop (Some j) ''message'') (opt_prop (Some j) ''error''))
                               (Some (JStr (''HTTP '' @ show_nat (status resp))))))))
                   else return ())
                  (\<lambda>parseErr. return ()))
               (\<lambda>_. throw (Error (''HTTP '' @ show_nat (status resp) @ '': ''
                                     @ substring0 (body_text resp) 100))))
        else
          (case JSON_parse (body_text resp) of
             None \<Rightarrow> throw (Error ''Invalid response from Copilot token endpoint'')
           | Some data \<Rightarrow>
               andThen (lift (get_prop (Some data) ''token'')) (\<lambda>tok.
               case tok of
                 None \<Rightarrow> throw (Error ''No token in Copilot response'')
               | Some tk \<Rightarrow>
                   if \<not> truthy tk then throw (Error ''No token in Copilot response'')
                   else
                     return \<lparr>ct_token = tk,
                             ct_expiresAt = map_option (\<lambda>n. n * 1000)
                                              (to_number (own_prop data ''expires_at''))\<rparr>))))
       (\<lambda>error. throw error)"

definition disconnect :: "unit io" where
  "disconnect =
     andThen (removeToken GITHUB_COPILOT) (\<lambda>_.
     andThen (removeToken GITHUB_COPILOT_SESSION) (\<lambda>_.
     return ()))"

definition bufferTime :: int where
  "bufferTime = 5 * 60 * 1000"

definition number_json :: "int option \<Rightarrow> json" where
  \<comment> \<open>a number as \<open>JSON.stringify\<close> writes it: NaN becomes \<open>null\<close>\<close>
  "number_json n = (case n of None \<Rightarrow> JNull | Some i \<Rightarrow> JNum i)"

text \<open>
  \<open>getSessionToken\<close> after its early return: the refresh.  A token that is not a string
  reaches the login manager as its string form.
\<close>

definition refreshSessionToken :: "json io" where
  "refreshSessionToken =
     andThen (getToken GITHUB_COPILOT) (\<lambda>auth.
     case auth of
       None \<Rightarrow> throw (Error ''Not authenticated. Please connect to GitHub Copilot.'')
     | Some a \<Rightarrow>
         if token a = [] then throw (Error ''Not authenticated. Please connect to GitHub Copilot.'')
         else
           try_catch
             (andThen (getCopilotToken (token a)) (\<lambda>copilotToken.
              andThen (storeToken GITHUB_COPILOT_SESSION (js_string (ct_token copilotToken))
                         [(''expiresAt'', number_json (ct_expiresAt copilotToken))]) (\<lambda>_.
              return (ct_token copilotToken))))
             (\<lambda>error.
                if str_includes (message error) ''401'' \<or> str_includes (message error) ''invalid''
                   \<or> str_includes (message error) ''expired''
                then andThen disconnect (\<lambda>_.
                       throw (Error ''GitHub session expired. Please reconnect to GitHub Copilot.''))
                else throw error))"

definition getSessionToken :: "json io" where
  "getSessionToken =
     andThen (getToken GITHUB_COPILOT_SESSION) (\<lambda>session.
     case session of
       None \<Rightarrow> refreshSessionToken
     | Some s \<Rightarrow>
         andThen (lift (get_prop (Some (metadata s)) ''expiresAt'')) (\<lambda>expiresAt.
         andThen now (\<lambda>t.
         if num_gt (to_number expiresAt) (Some (t + bufferTime)) then return (JStr (token s))
         else refreshSessionToken)))"

definition hasValidSession :: "bool io" where
  "hasValidSession =
     try_catch (andThen getSessionToken (\<lambda>tok. return (truthy tok))) (\<lambda>error. return False)"

definition cancelFlow :: "unit io" where
  "cancelFlow w = (Inr (), w\<lparr>currentFlow := None\<rparr>)"

text \<open>
  \<open>pollForToken\<close>.  The values its closure captures are a \<open>poll_env\<close>; \<open>poll\<close> is one run of
  the inner function, which settles the promise or sets the next timer.
\<close>

record poll_env =
  p_deviceCode :: jsval
  p_pollInterval :: "int option"
  p_expiresAt :: "int option"

datatype poll_step = Resolve json | Reject js_error | SetTimeout nat

definition access_token_request :: "jsval \<Rightarrow> request" where
  "access_token_request code =
     \<lparr>url = ACCESS_TOKEN_URL, http_method = ''POST'',
      headers = [(''Accept'', ''application/json''), (''Content-Type'', ''application/json'')],
      body = Json (JObj ([(''client_id'', JStr CLIENT_ID)]
                         @ (case code of None \<Rightarrow> [] | Some c \<Rightarrow> [(''device_code'', c)])
                         @ [(''grant_type'', JStr ''urn:ietf:params:oauth:grant-type:device_code'')]))\<rparr>"

definition timer_delay :: "int option \<Rightarrow> nat" where
  \<comment> \<open>\<open>setTimeout\<close> takes NaN and negative delays as 0\<close>
  "timer_delay d = (case d of None \<Rightarrow> 0 | Some n \<Rightarrow> nat n)"

definition on_status :: "bool \<Rightarrow> string \<Rightarrow> unit io" where
  \<comment> \<open>\<open>if (onStatusUpdate) onStatusUpdate(s)\<close>\<close>
  "on_status given s w = (Inr (), if given then w\<lparr>status_calls := status_calls w @ [s]\<rparr> else w)"

definition set_currentFlow :: "flow option \<Rightarrow> unit io" where
  "set_currentFlow f w = (Inr (), w\<lparr>currentFlow := f\<rparr>)"

definition poll_body :: "poll_env \<Rightarrow> bool \<Rightarrow> poll_step io" where
  "poll_body env onStatusUpdate =
     andThen now (\<lambda>t.
     if num_gt (Some t) (p_expiresAt env) then
       andThen (set_currentFlow None) (\<lambda>_.
       return (Reject (Error ''Device code expired. Please try again.'')))
     else
       try_catch
         (andThen (fetch (access_token_request (p_deviceCode env))) (\<lambda>resp.
          case JSON_parse (body_text resp) of
            None \<Rightarrow> throw (Error ''JSON.parse: unexpected character'')
          | Some data \<Rightarrow>
              andThen (lift (get_prop (Some data) ''error'')) (\<lambda>err.
              if truthy_val err then
                (if err = Some (JStr ''authorization_pending'') then
                   andThen (on_status onStatusUpdate ''waiting'') (\<lambda>_.
                   return (SetTimeout (timer_delay (p_pollInterval env))))
                 else if err = Some (JStr ''slow_down'') then
                   return (SetTimeout (timer_delay (map_option (\<lambda>n. n + 5000) (p_pollInterval env))))
                 else if err = Some (JStr ''expired_token'') then
                   andThen (set_currentFlow None) (\<lambda>_.
                   return (Reject (Error ''Device code expired. Please try again.'')))
                 else if err = Some (JStr ''access_denied'') then
                   andThen (set_currentFlow None) (\<lambda>_.
                   return (Reject (Error ''Access denied by user.'')))
                 else
                   return (Reject (Error (js_string_val
                     (or_else (own_prop data ''error_description'') err)))))
              else
                (case own_prop data ''access_token'' of
                   None \<Rightarrow> return (Reject (Error ''Unexpected response from GitHub''))
                 | Some tok \<Rightarrow>
                     if truthy tok then
                       andThen (set_currentFlow None) (\<lambda>_.
                       andThen (on_status onStatusUpdate ''success'') (\<lambda>_.
                       return (Resolve tok)))
                     else return (Reject (Error ''Unexpected response from GitHub''))))))
         (\<lambda>error. return (Reject error)))"

definition poll :: "poll_env \<Rightarrow> bool \<Rightarrow> world \<Rightarrow> poll_step \<times> world" where
  "poll env onStatusUpdate w =
     (case poll_body env onStatusUpdate w of
        (Inl e, w1) \<Rightarrow> (Reject e, w1)
      | (Inr step, w1) \<Rightarrow> (step, w1))"


text \<open>
  The promise that \<open>pollForToken\<close> returns.  While a timer is pending the rest of the
  add-on runs; \<open>cancels k\<close> says whether \<open>cancelFlow()\<close> is called while the timer set by
  run \<open>k\<close> is pending.  Every run that sets a timer has consumed a reply, so the runs end
  when the replies do.
\<close>

lemma poll_consumes:
  assumes "poll env cb w = (SetTimeout d, w1)"
  shows "length (net w1) < length (net w)"
proof -
  have f: "\<And>rq a w2. fetch rq w = (Inr a, w2) \<Longrightarrow> length (net w2) < length (net w)"
    by (auto simp: fetch_def split: list.splits prod.splits reply.splits)
  show ?thesis
    using assms
    unfolding poll_def poll_body_def
    by (auto simp: andThen_def try_catch_def now_def return_def throw_def lift_def
          set_currentFlow_def on_status_def
        split: prod.splits sum.splits if_splits option.splits
        dest!: f)
qed

function poll_loop :: "poll_env \<Rightarrow> bool \<Rightarrow> (nat \<Rightarrow> bool) \<Rightarrow> nat \<Rightarrow> json io" where
  "poll_loop env cb cancels k w =
     (case poll env cb w of
        (Resolve v, w1) \<Rightarrow> (Inr v, w1)
      | (Reject e, w1) \<Rightarrow> (Inl e, w1)
      | (SetTimeout d, w1) \<Rightarrow>
          poll_loop env cb cancels (Suc k)
            ((if cancels k then snd (cancelFlow w1) else w1)\<lparr>clock := clock w1 + int d\<rparr>))"
  by pat_completeness auto
termination
  by (relation "measure (\<lambda>(env, cb, cancels, k, w). length (net w))")
     (auto simp: cancelFlow_def dest: poll_consumes [OF sym])

declare poll_loop.simps [simp del]

definition pollForToken :: "bool \<Rightarrow> (nat \<Rightarrow> bool) \<Rightarrow> json io" where
  "pollForToken onStatusUpdate cancels w =
     (case currentFlow w of
        None \<Rightarrow> (Inl (Error ''No active device flow. Call startDeviceFlow first.''), w)
      | Some f \<Rightarrow>
          poll_loop
            \<lparr>p_deviceCode = deviceCode f,
             p_pollInterval = map_option (\<lambda>n. max (n * 1000) DEFAULT_INTERVAL) (to_number (Some (interval f))),
             p_expiresAt = map_option (\<lambda>n. startTime f + n * 1000) (to_number (expiresIn f))\<rparr>
            onStatusUpdate cancels 0 w)"


section \<open>Copilot client (\<open>copilotClient.js\<close>)\<close>

definition API_URL :: string where
  "API_URL = ''https://api.githubcopilot.com/chat/completions''"

definition MODELS_URLS :: "string list" where
  "MODELS_URLS = [''https://api.githubcopilot.com/models'', ''https://api.githubcopilot.com/chat/models'']"

definition EDITOR_VERSION :: string where
  "EDITOR_VERSION = ''vscode/1.96.0''"

definition COPILOT_INTEGRATION_ID :: string where
  "COPILOT_INTEGRATION_ID = ''vscode-chat''"

text \<open>The value \<open>FALLBACK_MODELS\<close> has when the add-on is loaded.\<close>

definition FALLBACK_MODELS :: "string list" where
  "FALLBACK_MODELS = [''claude-sonnet-4.5'', ''gpt-5'', ''gpt-5-mini'', ''gpt-4.1'', ''gemini-2.5-pro'']"

definition MODELS_CACHE_TTL :: int where
  "MODELS_CACHE_TTL = 5 * 60 * 1000"

definition this_FALLBACK_MODELS :: "string list io" where
  "this_FALLBACK_MODELS w = (Inr (fallbackModels w), w)"

text \<open>
  \<open>includes\<close> and \<open>!==\<close> on values are equality of the values, which is what JavaScript
  computes on strings, numbers, booleans and \<open>null\<close>.
\<close>

definition first_of :: "'a list \<Rightarrow> 'a option" where
  \<comment> \<open>\<open>xs[0]\<close>\<close>
  "first_of xs = (case xs of [] \<Rightarrow> None | x # _ \<Rightarrow> Some x)"

definition pickFallbackModel :: "string list \<Rightarrow> json list \<Rightarrow> jsval" where
  "pickFallbackModel fallbacks available =
     (case find (\<lambda>candidate. JStr candidate \<in> set available) fallbacks of
        Some candidate \<Rightarrow> Some (JStr candidate)
      | None \<Rightarrow> or_else (first_of available) (Some JNull))"

definition extract_entry :: "json \<Rightarrow> json list" where
  \<comment> \<open>what the inner function of \<open>extractModelIds\<close> pushes for one entry\<close>
  "extract_entry entry =
     (if \<not> truthy entry then []
      else (case entry of
              JStr s \<Rightarrow> [entry]
            | _ \<Rightarrow>
                if truthy_val (own_prop entry ''id'') then [the (own_prop entry ''id'')]
                else if truthy_val (own_prop entry ''model'') then [the (own_prop entry ''model'')]
                else if truthy_val (own_prop entry ''name'') then [the (own_prop entry ''name'')]
                else []))"

definition extractModelIds :: "json \<Rightarrow> json list" where
  "extractModelIds payload =
     filter truthy (concat (map extract_entry
       (case payload of
          JArr xs \<Rightarrow> xs
        | _ \<Rightarrow>
            (case opt_prop (Some payload) ''data'' of
               Some (JArr xs) \<Rightarrow> xs
             | _ \<Rightarrow>
                 (case opt_prop (Some payload) ''models'' of
                    Some (JArr xs) \<Rightarrow> xs
                  | _ \<Rightarrow> [])))))"

definition models_request :: "json \<Rightarrow> string \<Rightarrow> request" where
  "models_request tok u =
     \<lparr>url = u, http_method = ''GET'',
      headers = [(''Authorization'', ''Bearer '' @ js_string tok),
                 (''Accept'', ''application/json''),
                 (''Editor-Version'', EDITOR_VERSION),
                 (''Copilot-Integration-Id'', COPILOT_INTEGRATION_ID)],
      body = NoBody\<rparr>"

text \<open>
  One round of the loop over \<open>MODELS_URLS\<close>: the value of \<open>models\<close> after it, and whether
  the loop breaks.
\<close>

definition try_models_url :: "json \<Rightarrow> json list \<Rightarrow> string \<Rightarrow> (json list \<times> bool) io" where
  "try_models_url tok models u =
     try_catch
       (andThen (fetch (models_request tok u)) (\<lambda>resp.
        if \<not> ok resp then return (models, False)
        else if \<not> startsWith (trim (body_text resp)) ''{'' \<and> \<not> startsWith (trim (body_text resp)) ''[''
        then return (models, False)
        else
          (case JSON_parse (body_text resp) of
             None \<Rightarrow> throw (Error ''JSON.parse: unexpected character'')
           | Some data \<Rightarrow> return (extractModelIds data, extractModelIds data \<noteq> []))))
       (\<lambda>urlError. return (models, False))"

fun fetch_models :: "json \<Rightarrow> json list \<Rightarrow> string list \<Rightarrow> json list io" where
  "fetch_models tok models [] = return models"
| "fetch_models tok models (u # us) =
     andThen (try_models_url tok models u) (\<lambda>(models1, stop).
     if stop then return models1 else fetch_models tok models1 us)"

definition set_cachedModels :: "json list \<Rightarrow> int \<Rightarrow> unit io" where
  "set_cachedModels models t w = (Inr (), w\<lparr>cachedModels := Some models, cachedModelsAt := t\<rparr>)"

definition this_cachedModels :: "(json list option \<times> int) io" where
  \<comment> \<open>\<open>this._cachedModels\<close> (\<open>None\<close> is \<open>null\<close>) and \<open>this._cachedModelsAt\<close>\<close>
  "this_cachedModels w = (Inr (cachedModels w, cachedModelsAt w), w)"

text \<open>\<open>getAvailableModels\<close> after its early return; \<open>t\<close> is the \<open>now\<close> it read on entry.\<close>

definition fetchAvailableModels :: "int \<Rightarrow> json list io" where
  "fetchAvailableModels t =
     andThen (try_catch (andThen getSessionToken (\<lambda>tok. fetch_models tok [] MODELS_URLS))
                (\<lambda>error. return [])) (\<lambda>models.
     andThen this_FALLBACK_MODELS (\<lambda>fb.
     andThen (set_cachedModels (if models = [] then map JStr fb else models) t) (\<lambda>_.
     return (if models = [] then map JStr fb else models))))"

definition getAvailableModels :: "json list io" where
  "getAvailableModels =
     andThen now (\<lambda>t.
     andThen this_cachedModels (\<lambda>(cached, cachedAt).
     case cached of
       None \<Rightarrow> fetchAvailableModels t
     | Some models \<Rightarrow>
         if t - cachedAt < MODELS_CACHE_TTL then return models
         else fetchAvailableModels t))"

definition resolveModel :: "jsval \<Rightarrow> jsval io" where
  "resolveModel requestedModel =
     andThen getAvailableModels (\<lambda>available.
     andThen this_FALLBACK_MODELS (\<lambda>fb.
     if available = [] then return (or_else requestedModel (map_option JStr (first_of fb)))
     else if truthy_val requestedModel \<and> the requestedModel \<in> set available then return requestedModel
     else
       return (or_else (or_else (pickFallbackModel fb available) requestedModel)
                 (first_of available))))"

definition shouldRetryWithFallback :: "nat \<Rightarrow> string \<Rightarrow> bool" where
  "shouldRetryWithFallback st txt =
     (if st \<noteq> 400 \<and> st \<noteq> 404 \<and> st \<noteq> 422 then False
      else str_includes (toLowerCase txt) ''model'' \<or> str_includes (toLowerCase txt) ''invalid''
           \<or> str_includes (toLowerCase txt) ''unsupported'')"

definition findFallbackModel :: "jsval \<Rightarrow> jsval io" where
  "findFallbackModel currentModel =
     andThen getAvailableModels (\<lambda>available.
     andThen this_FALLBACK_MODELS (\<lambda>fb.
     if available \<noteq> [] \<and> truthy_val (pickFallbackModel fb available)
        \<and> pickFallbackModel fb available \<noteq> currentModel
     then return (pickFallbackModel fb available)
     else
       (case find (\<lambda>candidate. Some (JStr candidate) \<noteq> currentModel) fb of
          Some candidate \<Rightarrow> return (Some (JStr candidate))
        | None \<Rightarrow> return (Some JNull))))"

definition formatApiError :: "nat \<Rightarrow> string \<Rightarrow> string" where
  "formatApiError st txt =
     (if st = 401 then
        ''Copilot API error (401): Authentication failed. Please reconnect to GitHub Copilot.''
      else if st = 403 then
        ''Copilot API error (403): Access denied. Please ensure you have an active GitHub Copilot subscription.''
      else
        ''Copilot API error ('' @ show_nat st @ ''): '' @
        (let raw = (if txt = [] then ''Unknown error'' else txt) in
         if startsWith (trim txt) ''{'' \<or> startsWith (trim txt) ''['' then
           (case JSON_parse (trim txt) of
              None \<Rightarrow> if length raw > 200 then substring0 raw 200 @ ''...'' else raw
            | Some j \<Rightarrow>
                if truthy_val (opt_prop (opt_prop (Some j) ''error'') ''message'')
                then js_string_val (opt_prop (opt_prop (Some j) ''error'') ''message'')
                else if truthy_val (opt_prop (Some j) ''message'')
                then js_string_val (opt_prop (Some j) ''message'')
                else if truthy_val (opt_prop (Some j) ''error'')
                then (case opt_prop (Some j) ''error'' of
                        Some (JStr e) \<Rightarrow> e
                      | Some e \<Rightarrow> JSON_stringify e
                      | None \<Rightarrow> raw)
                else raw)
         else raw))"


subsection \<open>Streaming\<close>

record stream_state =
  buffer :: string
  fullContent :: string
  errorMessage :: jsval
  calls :: "(json \<times> string) list"

definition DONE :: string where
  "DONE = ''[DONE]''"

text \<open>
  The body of the loop over the complete lines.  \<open>onChunk\<close> says whether the caller gave a
  callback; a call of it is logged with the delta and the accumulated text it receives.
\<close>

definition process_line :: "bool \<Rightarrow> stream_state \<Rightarrow> string \<Rightarrow> stream_state" where
  "process_line onChunk st line =
     (if startsWith line ''data: '' then
        (let d = trim (slice_from line 6) in
         if d = DONE then st
         else if d = [] then st
         else
           (case JSON_parse d of
              None \<Rightarrow> st
            | Some j \<Rightarrow>
                (case get_prop (Some j) ''error'' of
                   Inl e \<Rightarrow> st
                 | Inr err \<Rightarrow>
                     if truthy_val err then
                       st\<lparr>errorMessage := or_else (opt_prop err ''message'') err\<rparr>
                     else
                       (case opt_prop (opt_prop (opt_first (opt_prop (Some j) ''choices'')) ''delta'') ''content'' of
                          None \<Rightarrow> st
                        | Some c \<Rightarrow>
                            if truthy c then
                              st\<lparr>fullContent := fullContent st @ js_string c,
                                 calls := (if onChunk
                                           then calls st @ [(c, fullContent st @ js_string c)]
                                           else calls st)\<rparr>
                            else st))))
      else st)"

fun read_loop :: "bool \<Rightarrow> string list \<Rightarrow> stream_state \<Rightarrow> stream_state" where
  "read_loop onChunk [] st = st"
| "read_loop onChunk (v # rest) st =
     read_loop onChunk rest
       (foldl (process_line onChunk)
          (st\<lparr>buffer := last (split_lines (buffer st @ v))\<rparr>)
          (butlast (split_lines (buffer st @ v))))"

datatype chat_result = Completion string string | Body json

definition log_chunks :: "(json \<times> string) list \<Rightarrow> unit io" where
  "log_chunks cs w = (Inr (), w\<lparr>chunk_calls := chunk_calls w @ cs\<rparr>)"

definition handleStreamingResponse :: "response \<Rightarrow> bool \<Rightarrow> chat_result io" where
  "handleStreamingResponse resp onChunk =
     (let st = read_loop onChunk (chunks resp)
                 \<lparr>buffer = [], fullContent = [], errorMessage = Some JNull, calls = []\<rparr>
      in andThen (log_chunks (calls st)) (\<lambda>_.
         if truthy_val (errorMessage st) \<and> fullContent st = []
         then throw (Error (js_string_val (errorMessage st)))
         else return (Completion (fullContent st)
                        (case x_model resp of
                           None \<Rightarrow> ''unknown''
                         | Some m \<Rightarrow> if m = [] then ''unknown'' else m))))"

subsection \<open>\<open>chat\<close>\<close>

definition is_array :: "jsval \<Rightarrow> bool" where
  "is_array v = (case v of Some (JArr xs) \<Rightarrow> True | _ \<Rightarrow> False)"

definition array_items :: "jsval \<Rightarrow> json list" where
  "array_items v = (case v of Some (JArr xs) \<Rightarrow> xs | _ \<Rightarrow> [])"

definition field :: "string \<Rightarrow> jsval \<Rightarrow> (string \<times> json) list" where
  \<comment> \<open>a member of an object literal; a member that is \<open>undefined\<close> is left out, as \<open>JSON.stringify\<close> would\<close>
  "field k v = (case v of None \<Rightarrow> [] | Some j \<Rightarrow> [(k, j)])"

definition normalize_message :: "json \<Rightarrow> js_error + json" where
  "normalize_message m =
     (case get_prop (Some m) ''content'' of
        Inl e \<Rightarrow> Inl e
      | Inr c \<Rightarrow>
          if is_array c then Inr m
          else if \<not> is_array (own_prop m ''images'') \<or> array_items (own_prop m ''images'') = [] then
            Inr (JObj (field ''role'' (own_prop m ''role'') @ field ''content'' (or_else c (Some (JStr [])))))
          else
            Inr (JObj (field ''role'' (own_prop m ''role'') @
                 [(''content'',
                   JArr (JObj ([(''type'', JStr ''text'')] @ field ''text'' (or_else c (Some (JStr []))))
                         # map (\<lambda>image. JObj [(''type'', JStr ''image_url''),
                                                (''image_url'', JObj [(''url'', image)])])
                             (array_items (own_prop m ''images''))))])))"

fun map_result :: "('a \<Rightarrow> js_error + 'b) \<Rightarrow> 'a list \<Rightarrow> js_error + 'b list" where
  "map_result f [] = Inr []"
| "map_result f (x # xs) =
     (case f x of
        Inl e \<Rightarrow> Inl e
      | Inr y \<Rightarrow> (case map_result f xs of Inl e \<Rightarrow> Inl e | Inr ys \<Rightarrow> Inr (y # ys)))"

definition normalizeMessagesForVision :: "jsval \<Rightarrow> js_error + json list" where
  "normalizeMessagesForVision msgs =
     (if \<not> is_array msgs then Inr [] else map_result normalize_message (array_items msgs))"

definition hasVisionRequest :: "json list \<Rightarrow> bool" where
  "hasVisionRequest msgs =
     list_ex (\<lambda>m.
        (is_array (own_prop m ''images'') \<and> array_items (own_prop m ''images'') \<noteq> [])
        \<or> (is_array (own_prop m ''content'')
            \<and> list_ex (\<lambda>part. truthy part \<and> own_prop part ''type'' = Some (JStr ''image_url''))
                 (array_items (own_prop m ''content'')))) msgs"

definition buildHeaders :: "bool \<Rightarrow> bool \<Rightarrow> json \<Rightarrow> (string \<times> string) list" where
  "buildHeaders strm hasVision tok =
     [(''Authorization'', ''Bearer '' @ js_string tok),
      (''Content-Type'', ''application/json''),
      (''Editor-Version'', EDITOR_VERSION),
      (''Copilot-Integration-Id'', COPILOT_INTEGRATION_ID),
      (''Accept'', if strm then ''text/event-stream'' else ''application/json'')]
     @ (if hasVision then [(''Copilot-Vision-Request'', ''true'')] else [])"

record chat_options =
  model :: jsval
  messages :: jsval
  stream :: bool
  onChunk :: bool
  temperature :: jsval
  maxTokens :: jsval

definition nullish :: "jsval \<Rightarrow> bool" where
  "nullish v = (v = None \<or> v = Some JNull)"

definition prefs :: "(jsval \<times> jsval) io" where
  \<comment> \<open>the two \<open>Zotero.Prefs.get\<close> reads\<close>
  "prefs w = (Inr (pref_temperature w, pref_maxTokens w), w)"

definition chat_request :: "(string \<times> string) list \<Rightarrow> chat_body \<Rightarrow> request" where
  "chat_request hs b = \<lparr>url = API_URL, http_method = ''POST'', headers = hs, body = ChatBody b\<rparr>"

definition response_json :: "response \<Rightarrow> json io" where
  \<comment> \<open>\<open>response.json()\<close>\<close>
  "response_json resp =
     (case JSON_parse (body_text resp) of
        None \<Rightarrow> throw (Error ''JSON.parse: unexpected character'')
      | Some j \<Rightarrow> return j)"

definition chat :: "chat_options \<Rightarrow> chat_result io" where
  "chat opts =
     andThen getSessionToken (\<lambda>tok.
     andThen (resolveModel (model opts)) (\<lambda>resolvedModel.
     andThen (lift (normalizeMessagesForVision (messages opts))) (\<lambda>normalizedMessages.
     andThen prefs (\<lambda>(prefTemperature, prefMaxTokens).
     let temp = (if \<not> nullish (temperature opts) then Given (the (temperature opts))
                 else if \<not> nullish prefTemperature then Given (the prefTemperature)
                 else Default_0_3);
         tokens = (if \<not> nullish (maxTokens opts) then the (maxTokens opts)
                   else if \<not> nullish prefMaxTokens then the prefMaxTokens
                   else JNum 2000);
         hdrs = buildHeaders (stream opts) (hasVisionRequest normalizedMessages) tok;
         body_for = (\<lambda>m. \<lparr>b_model = m, b_messages = normalizedMessages, b_stream = stream opts,
                           b_temperature = temp, b_max_tokens = tokens\<rparr>)
     in
     andThen (fetch (chat_request hdrs (body_for resolvedModel))) (\<lambda>resp.
     andThen
       (if \<not> ok resp then
          (if shouldRetryWithFallback (status resp) (body_text resp) then
             andThen (findFallbackModel resolvedModel) (\<lambda>fallbackModel.
             if truthy_val fallbackModel \<and> fallbackModel \<noteq> resolvedModel then
               andThen (fetch (chat_request hdrs (body_for fallbackModel))) (\<lambda>resp2.
               if \<not> ok resp2
               then throw (Error (formatApiError (status resp2) (body_text resp2)))
               else return resp2)
             else throw (Error (formatApiError (status resp) (body_text resp))))
           else throw (Error (formatApiError (status resp) (body_text resp))))
        else return resp) (\<lambda>answer.
     if stream opts then handleStreamingResponse answer (onChunk opts)
     else andThen (response_json answer) (\<lambda>j. return (Body j))))))))"


section \<open>Evaluation rules\<close>

lemmas io_defs = andThen_def try_catch_def return_def throw_def lift_def now_def

section \<open>What the operations do to the world\<close>

text \<open>
  \<open>quiet w w1\<close>: from \<open>w\<close> to \<open>w1\<close> no chat request was sent, no callback was called and
  the properties of the add-on that are not caches kept their values.
\<close>

definition quiet :: "world \<Rightarrow> world \<Rightarrow> bool" where
  "quiet w w1 \<longleftrightarrow>
     lm_available w1 = lm_available w \<and> fallbackModels w1 = fallbackModels w
     \<and> currentFlow w1 = currentFlow w
     \<and> pref_temperature w1 = pref_temperature w \<and> pref_maxTokens w1 = pref_maxTokens w
     \<and> chunk_calls w1 = chunk_calls w \<and> status_calls w1 = status_calls w
     \<and> (\<exists>rs. sent w1 = sent w @ rs \<and> list_all (\<lambda>r. url r \<noteq> API_URL) rs)"

definition quiet_op :: "'a io \<Rightarrow> bool" where
  "quiet_op m \<longleftrightarrow> (\<forall>w r w1. m w = (r, w1) \<longrightarrow> quiet w w1)"

named_theorems quiet_intros

lemma quiet_refl [simp]: "quiet w w"
  by (simp add: quiet_def)

lemma quiet_trans: "quiet w w1 \<Longrightarrow> quiet w1 w2 \<Longrightarrow> quiet w w2"
  by (auto simp: quiet_def)

lemma quiet_opD: "quiet_op m \<Longrightarrow> m w = (r, w1) \<Longrightarrow> quiet w w1"
  by (simp add: quiet_op_def)

lemma quiet_basic [quiet_intros]:
  "quiet_op (return a)" "quiet_op (throw e)" "quiet_op (lift x)" "quiet_op now"
  by (simp_all add: quiet_op_def io_defs)

lemma quiet_andThen [quiet_intros]:
  assumes "quiet_op m" "\<And>a. quiet_op (f a)"
  shows "quiet_op (andThen m f)"
  unfolding quiet_op_def andThen_def
  by (auto split: prod.splits sum.splits dest!: quiet_opD [OF assms(1)] quiet_opD [OF assms(2)]
       intro: quiet_trans)

lemma quiet_try_catch [quiet_intros]:
  assumes "quiet_op m" "\<And>e. quiet_op (h e)"
  shows "quiet_op (try_catch m h)"
  unfolding quiet_op_def try_catch_def
  by (auto split: prod.splits sum.splits dest!: quiet_opD [OF assms(1)] quiet_opD [OF assms(2)]
       intro: quiet_trans)

lemma quiet_if [quiet_intros]:
  "quiet_op a \<Longrightarrow> quiet_op b \<Longrightarrow> quiet_op (if c then a else b)"
  by simp

lemma quiet_case_option [quiet_intros]:
  "quiet_op a \<Longrightarrow> (\<And>x. quiet_op (f x)) \<Longrightarrow> quiet_op (case v of None \<Rightarrow> a | Some x \<Rightarrow> f x)"
  by (cases v) simp_all

lemma quiet_case_list [quiet_intros]:
  "quiet_op a \<Longrightarrow> (\<And>x xs. quiet_op (f x xs)) \<Longrightarrow> quiet_op (case v of [] \<Rightarrow> a | x # xs \<Rightarrow> f x xs)"
  by (cases v) simp_all

lemma quiet_case_prod [quiet_intros]:
  "(\<And>a b. quiet_op (f a b)) \<Longrightarrow> quiet_op (case p of (a, b) \<Rightarrow> f a b)"
  by (cases p) simp

lemma quiet_fetch [quiet_intros]:
  "url rq \<noteq> API_URL \<Longrightarrow> quiet_op (fetch rq)"
  by (auto simp: quiet_op_def quiet_def fetch_def split: list.splits prod.splits)

lemma quiet_login_manager [quiet_intros]:
  "quiet_op (findLogins h r)" "quiet_op (addLogin l)" "quiet_op (removeLogin l)"
  by (auto simp: quiet_op_def quiet_def findLogins_def addLogin_def removeLogin_def split: if_splits)

lemma quiet_for_each [quiet_intros]:
  "(\<And>x. quiet_op (f x)) \<Longrightarrow> quiet_op (for_each f xs)"
  by (induction xs) (auto intro: quiet_intros)

lemma quiet_removeToken [quiet_intros]: "quiet_op (removeToken realm)"
  unfolding removeToken_def by (intro quiet_intros)

lemma quiet_storeToken [quiet_intros]: "quiet_op (storeToken realm tok meta)"
  unfolding storeToken_def by (intro quiet_intros)

lemma quiet_getToken [quiet_intros]: "quiet_op (getToken realm)"
  unfolding getToken_def by (intro quiet_intros)

lemma token_url_not_api: "COPILOT_TOKEN_URL \<noteq> API_URL"
  by (simp add: COPILOT_TOKEN_URL_def API_URL_def)

lemma quiet_getCopilotToken [quiet_intros]: "quiet_op (getCopilotToken a)"
  unfolding getCopilotToken_def
  by (intro quiet_intros) (simp add: copilot_token_request_def token_url_not_api)

lemma quiet_disconnect [quiet_intros]: "quiet_op disconnect"
  unfolding disconnect_def by (intro quiet_intros)

lemma quiet_refreshSessionToken [quiet_intros]: "quiet_op refreshSessionToken"
  unfolding refreshSessionToken_def by (intro quiet_intros)

lemma quiet_getSessionToken [quiet_intros]: "quiet_op getSessionToken"
  unfolding getSessionToken_def by (intro quiet_intros)

lemma quiet_this_FALLBACK_MODELS [quiet_intros]: "quiet_op this_FALLBACK_MODELS"
  by (simp add: quiet_op_def this_FALLBACK_MODELS_def)

lemma quiet_set_cachedModels [quiet_intros]: "quiet_op (set_cachedModels ms t)"
  by (simp add: quiet_op_def quiet_def set_cachedModels_def)

lemma quiet_try_models_url [quiet_intros]:
  "u \<noteq> API_URL \<Longrightarrow> quiet_op (try_models_url tok ms u)"
  unfolding try_models_url_def
  by (intro quiet_intros) (simp add: models_request_def)

lemma quiet_fetch_models [quiet_intros]:
  "list_all (\<lambda>u. u \<noteq> API_URL) us \<Longrightarrow> quiet_op (fetch_models tok ms us)"
  by (induction us arbitrary: ms) (auto intro!: quiet_intros)

lemma models_urls_not_api: "list_all (\<lambda>u. u \<noteq> API_URL) MODELS_URLS"
  by (simp add: MODELS_URLS_def API_URL_def)

lemma quiet_this_cachedModels [quiet_intros]: "quiet_op this_cachedModels"
  by (simp add: quiet_op_def this_cachedModels_def)

lemma quiet_fetchAvailableModels [quiet_intros]: "quiet_op (fetchAvailableModels t)"
  unfolding fetchAvailableModels_def by (intro quiet_intros models_urls_not_api)

lemma quiet_getAvailableModels [quiet_intros]: "quiet_op getAvailableModels"
  unfolding getAvailableModels_def by (intro quiet_intros)

lemma quiet_resolveModel [quiet_intros]: "quiet_op (resolveModel m)"
  unfolding resolveModel_def by (intro quiet_intros)

lemma quiet_findFallbackModel [quiet_intros]: "quiet_op (findFallbackModel m)"
  unfolding findFallbackModel_def by (intro quiet_intros)

subsection \<open>Token storage\<close>

lemma getToken_world: "snd (getToken realm w) = w"
  by (auto simp: getToken_def findLogins_def io_defs split: list.splits)

lemma getToken_Some_available:
  "getToken realm w = (Inr (Some r), w1) \<Longrightarrow> lm_available w"
  by (auto simp: getToken_def findLogins_def io_defs split: list.splits if_splits)

lemma for_each_removeLogin:
  "lm_available w \<Longrightarrow>
   for_each removeLogin ls w = (Inr (), w\<lparr>logins := filter (\<lambda>x. x \<notin> set ls) (logins w)\<rparr>)"
proof (induction ls arbitrary: w)
  case Nil
  then show ?case by (simp add: io_defs)
next
  case (Cons l ls)
  have "filter (\<lambda>x. x \<notin> set ls) (filter (\<lambda>x. x \<noteq> l) (logins w))
        = filter (\<lambda>x. x \<notin> set (l # ls)) (logins w)"
    by (induction "logins w") auto
  with Cons show ?case
    by (simp add: io_defs removeLogin_def)
qed

definition in_realm :: "string \<Rightarrow> login \<Rightarrow> bool" where
  "in_realm realm l \<longleftrightarrow> hostname l = HOSTNAME \<and> httpRealm l = realm"

lemma findLogins_available:
  "lm_available w \<Longrightarrow> findLogins HOSTNAME realm w = (Inr (filter (in_realm realm) (logins w)), w)"
proof -
  have "filter (\<lambda>l. hostname l = HOSTNAME \<and> httpRealm l = realm) (logins w) = filter (in_realm realm) (logins w)"
    by (rule filter_cong) (auto simp: in_realm_def)
  then show "lm_available w \<Longrightarrow> ?thesis"
    by (simp add: findLogins_def)
qed

lemma removeToken_available:
  assumes "lm_available w"
  shows "removeToken realm w
         = (Inr True, w\<lparr>logins := filter (\<lambda>l. \<not> in_realm realm l) (logins w)\<rparr>)"
proof -
  have "filter (\<lambda>x. x \<notin> set (filter (in_realm realm) (logins w))) (logins w)
        = filter (\<lambda>l. \<not> in_realm realm l) (logins w)"
    by (rule filter_cong) auto
  with assms show ?thesis
    by (simp add: removeToken_def findLogins_available io_defs for_each_removeLogin)
qed

lemma removeToken_unavailable:
  "\<not> lm_available w \<Longrightarrow> removeToken realm w = (Inr False, w)"
  by (simp add: removeToken_def findLogins_def io_defs)

lemma storeToken_available:
  assumes "lm_available w"
  shows "storeToken realm tok meta w
         = (Inr True,
            w\<lparr>logins := filter (\<lambda>l. \<not> in_realm realm l) (logins w)
                 @ [createLoginInfo realm
                      (JSON_stringify (JObj (obj_put meta ''storedAt'' (JNum (clock w))))) tok]\<rparr>)"
  using assms
  by (simp add: storeToken_def io_defs removeToken_available addLogin_def)

lemma storeToken_unavailable:
  "\<not> lm_available w \<Longrightarrow> storeToken realm tok meta w = (Inr False, w)"
  by (simp add: storeToken_def io_defs removeToken_unavailable addLogin_def)

lemma storeToken_True_available:
  "storeToken realm tok meta w = (Inr True, w1) \<Longrightarrow> lm_available w"
  by (cases "lm_available w") (auto simp: storeToken_unavailable)

lemma getToken_available:
  assumes "lm_available w"
  shows "getToken realm w
         = (Inr (case filter (in_realm realm) (logins w) of
                   [] \<Rightarrow> None
                 | l # _ \<Rightarrow> Some \<lparr>token = password l,
                                  metadata = (case JSON_parse (username l) of None \<Rightarrow> JObj [] | Some j \<Rightarrow> j)\<rparr>), w)"
  using assms
  by (auto simp: getToken_def findLogins_available io_defs split: list.splits)

lemma createLoginInfo_fields [simp]:
  "username (createLoginInfo realm u p) = u" "password (createLoginInfo realm u p) = p"
  by (simp_all add: createLoginInfo_def)

lemma in_realm_createLoginInfo [simp]:
  "in_realm realm (createLoginInfo realm2 u p) \<longleftrightarrow> realm = realm2"
  by (auto simp: in_realm_def createLoginInfo_def)

lemma wf_json_obj_put:
  assumes "wf_json (JObj kvs)" "wf_json v"
  shows "wf_json (JObj (obj_put kvs k v))"
proof (cases "k \<in> fst ` set kvs")
  case False
  with assms show ?thesis by (simp add: obj_put_def)
next
  case True
  let ?f = "\<lambda>(k', v'). if k' = k then (k', v) else (k', v')"
  have keys: "map fst (map ?f kvs) = map fst kvs"
    by (induction kvs) (simp_all add: case_prod_unfold)
  have "wf_json (snd (?f p))" if "p \<in> set kvs" for p
  proof -
    from that assms(1) have "wf_json (snd p)"
      by (simp add: list_all_iff case_prod_unfold)
    with assms(2) show ?thesis by (simp add: case_prod_unfold)
  qed
  then have "\<forall>p\<in>set kvs. wf_json (snd (?f p))"
    by blast
  then have vals: "list_all (\<lambda>(k, v). wf_json v) (map ?f kvs)"
    by (induction kvs) (simp_all add: case_prod_unfold)
  have "distinct (map fst (map ?f kvs))"
    unfolding keys using assms(1) by simp
  with True vals show ?thesis
    by (simp add: obj_put_def del: map_map)
qed

subsection \<open>Session tokens\<close>

lemma get_prop_own: "j \<noteq> JNull \<Longrightarrow> get_prop (Some j) k = Inr (own_prop j k)"
  by (cases j) simp_all

lemma get_prop_obj [simp]: "get_prop (Some (JObj kvs)) k = Inr (map_of kvs k)"
  by simp

definition after_fetch :: "world \<Rightarrow> nat \<Rightarrow> (nat \<times> reply) list \<Rightarrow> request \<Rightarrow> world" where
  "after_fetch w ms rest rq = w\<lparr>clock := clock w + int ms, net := rest, sent := sent w @ [rq]\<rparr>"

lemma fetch_Resolves:
  "net w = (ms, Resolves resp) # rest \<Longrightarrow> fetch rq w = (Inr resp, after_fetch w ms rest rq)"
  by (simp add: fetch_def after_fetch_def)

lemma getCopilotToken_ok:
  assumes "net w = (ms, Resolves resp) # rest" "ok resp"
    and "JSON_parse (body_text resp) = Some data"
    and "own_prop data ''token'' = Some tk" "truthy tk"
  shows "getCopilotToken a w
         = (Inr \<lparr>ct_token = tk,
                 ct_expiresAt = map_option (\<lambda>n. n * 1000) (to_number (own_prop data ''expires_at''))\<rparr>,
            after_fetch w ms rest (copilot_token_request a))"
proof -
  have "data \<noteq> JNull" using assms(4) by auto
  then have "get_prop (Some data) ''token'' = Inr (Some tk)"
    using assms(4) by (simp add: get_prop_own)
  then show ?thesis
    using assms by (simp add: getCopilotToken_def io_defs fetch_Resolves)
qed

lemma getCopilotToken_401:
  assumes "net w = (ms, Resolves resp) # rest" "status resp = 401"
  shows "getCopilotToken a w
         = (Inl (Error ''GitHub token is invalid or expired. Please re-authenticate.''),
            after_fetch w ms rest (copilot_token_request a))"
  using assms by (simp add: getCopilotToken_def io_defs fetch_Resolves ok_def)

lemma disconnect_available:
  assumes "lm_available w"
  shows "disconnect w
         = (Inr (), w\<lparr>logins := filter (\<lambda>l. \<not> in_realm GITHUB_COPILOT_SESSION l)
                                  (filter (\<lambda>l. \<not> in_realm GITHUB_COPILOT l) (logins w))\<rparr>)"
  using assms by (simp add: disconnect_def io_defs removeToken_available)

lemma refreshSessionToken_ok:
  assumes auth: "getToken GITHUB_COPILOT w = (Inr (Some a), w)" "token a \<noteq> []"
    and reply: "net w = (ms, Resolves resp) # rest" "ok resp"
      "JSON_parse (body_text resp) = Some data" "own_prop data ''token'' = Some tk" "truthy tk"
  shows "refreshSessionToken w
         = (Inr tk,
            (after_fetch w ms rest (copilot_token_request (token a)))
              \<lparr>logins := filter (\<lambda>l. \<not> in_realm GITHUB_COPILOT_SESSION l) (logins w)
                 @ [createLoginInfo GITHUB_COPILOT_SESSION
                      (JSON_stringify (JObj [(''expiresAt'',
                          number_json (map_option (\<lambda>n. n * 1000) (to_number (own_prop data ''expires_at'')))),
                        (''storedAt'', JNum (clock w + int ms))]))
                      (js_string tk)]\<rparr>)"
proof -
  have av: "lm_available w" using auth(1) by (rule getToken_Some_available)
  then have av2: "lm_available (after_fetch w ms rest (copilot_token_request (token a)))"
    by (simp add: after_fetch_def)
  show ?thesis
    using auth getCopilotToken_ok [OF reply, of "token a"] storeToken_available [OF av2]
    by (simp add: refreshSessionToken_def io_defs obj_put_def after_fetch_def)
qed

lemma refreshSessionToken_no_auth:
  assumes "getToken GITHUB_COPILOT w = (Inr None, w)
           \<or> (\<exists>a. getToken GITHUB_COPILOT w = (Inr (Some a), w) \<and> token a = [])"
  shows "refreshSessionToken w
         = (Inl (Error ''Not authenticated. Please connect to GitHub Copilot.''), w)"
  using assms by (auto simp: refreshSessionToken_def io_defs)

lemma refreshSessionToken_auth_error:
  assumes auth: "getToken GITHUB_COPILOT w = (Inr (Some a), w)" "token a \<noteq> []"
    and fail: "getCopilotToken (token a) w = (Inl err, w2)"
    and kind: "str_includes (message err) ''401'' \<or> str_includes (message err) ''invalid''
               \<or> str_includes (message err) ''expired''"
  shows "refreshSessionToken w
         = (Inl (Error ''GitHub session expired. Please reconnect to GitHub Copilot.''),
            w2\<lparr>logins := filter (\<lambda>l. \<not> in_realm GITHUB_COPILOT_SESSION l)
                            (filter (\<lambda>l. \<not> in_realm GITHUB_COPILOT l) (logins w2))\<rparr>)"
proof -
  have "lm_available w" using auth(1) by (rule getToken_Some_available)
  moreover have "quiet w w2" using quiet_opD [OF quiet_getCopilotToken fail] .
  ultimately have "lm_available w2" by (simp add: quiet_def)
  then show ?thesis
    using auth fail kind
    by (auto simp: refreshSessionToken_def io_defs disconnect_available)
qed


lemma getSessionToken_fresh:
  assumes "getToken GITHUB_COPILOT_SESSION w = (Inr (Some \<lparr>token = stored, metadata = JObj md\<rparr>), w)"
    and "map_of md ''expiresAt'' = Some (JNum e)" "clock w + 5 * 60 * 1000 < e"
  shows "getSessionToken w = (Inr (JStr stored), w)"
  using assms by (simp add: getSessionToken_def io_defs num_gt_def bufferTime_def)

lemma getSessionToken_stale:
  assumes "getToken GITHUB_COPILOT_SESSION w = (Inr session, w)"
    and "session = None \<or> session = Some \<lparr>token = stored, metadata = JObj md\<rparr>
           \<and> (map_of md ''expiresAt'' = None
                \<or> (\<exists>e. map_of md ''expiresAt'' = Some (JNum e) \<and> e \<le> clock w + 5 * 60 * 1000))"
  shows "getSessionToken w = refreshSessionToken w"
  using assms by (auto simp: getSessionToken_def io_defs num_gt_def bufferTime_def)

lemma disconnected_logins:
  "filter (in_realm GITHUB_COPILOT)
     (filter (\<lambda>l. \<not> in_realm GITHUB_COPILOT_SESSION l) (filter (\<lambda>l. \<not> in_realm GITHUB_COPILOT l) ls)) = []"
  "filter (in_realm GITHUB_COPILOT_SESSION)
     (filter (\<lambda>l. \<not> in_realm GITHUB_COPILOT_SESSION l) (filter (\<lambda>l. \<not> in_realm GITHUB_COPILOT l) ls)) = []"
  by (induction ls) auto

subsection \<open>The model catalog\<close>

definition cache_ok :: "world \<Rightarrow> bool" where
  "cache_ok w \<longleftrightarrow> (case cachedModels w of None \<Rightarrow> True | Some ms \<Rightarrow> ms \<noteq> [] \<and> list_all truthy ms)"

definition endpoint_fails :: "reply \<Rightarrow> bool" where
  \<comment> \<open>a catalog endpoint that errors, answers a non-OK status, answers no JSON, or yields no id\<close>
  "endpoint_fails r =
     (case r of
        Rejects m \<Rightarrow> True
      | Resolves resp \<Rightarrow>
          \<not> ok resp
          \<or> (\<not> startsWith (trim (body_text resp)) ''{'' \<and> \<not> startsWith (trim (body_text resp)) ''['')
          \<or> (case JSON_parse (body_text resp) of None \<Rightarrow> True | Some data \<Rightarrow> extractModelIds data = []))"

lemma extractModelIds_truthy: "list_all truthy (extractModelIds p)"
  by (simp add: extractModelIds_def list_all_iff)

lemma try_models_url_total:
  assumes "list_all truthy ms"
  shows "\<exists>ms1 stop w1. try_models_url tok ms u w = (Inr (ms1, stop), w1) \<and> list_all truthy ms1"
  using assms extractModelIds_truthy
  by (auto simp: try_models_url_def io_defs fetch_def split: list.splits prod.splits reply.splits option.splits)

lemma fetch_models_total:
  assumes "list_all truthy ms"
  shows "\<exists>ms1 w1. fetch_models tok ms us w = (Inr ms1, w1) \<and> list_all truthy ms1"
  using assms
proof (induction us arbitrary: ms w)
  case Nil
  then show ?case by (simp add: io_defs)
next
  case (Cons u us)
  obtain ms1 stop w1 where t: "try_models_url tok ms u w = (Inr (ms1, stop), w1)" "list_all truthy ms1"
    using try_models_url_total [OF Cons.prems] by blast
  show ?case
  proof (cases stop)
    case True
    with t show ?thesis by (simp add: io_defs)
  next
    case False
    with t Cons.IH [OF t(2), of w1] show ?thesis by (simp add: io_defs)
  qed
qed

lemma fallbacks_truthy: "list_all truthy (map JStr FALLBACK_MODELS)" "map JStr FALLBACK_MODELS \<noteq> []"
  by (simp_all add: FALLBACK_MODELS_def)

lemma fetchAvailableModels_result:
  assumes "fallbackModels w = FALLBACK_MODELS"
  shows "\<exists>ms w1. fetchAvailableModels t w = (Inr ms, w1) \<and> ms \<noteq> [] \<and> list_all truthy ms
           \<and> cachedModels w1 = Some ms \<and> cachedModelsAt w1 = t"
proof -
  obtain ms0 w0 where
    f: "try_catch (andThen getSessionToken (\<lambda>tok. fetch_models tok [] MODELS_URLS))
          (\<lambda>error. return []) w = (Inr ms0, w0)" and tr: "list_all truthy ms0"
  proof (cases "getSessionToken w")
    case (Pair r w0)
    show ?thesis
    proof (cases r)
      case (Inl e)
      with Pair that show ?thesis by (simp add: io_defs)
    next
      case (Inr tok)
      obtain ms1 w1 where "fetch_models tok [] MODELS_URLS w0 = (Inr ms1, w1)" "list_all truthy ms1"
        using fetch_models_total [of "[]" tok MODELS_URLS w0] by auto
      with Pair Inr that show ?thesis by (simp add: io_defs)
    qed
  qed
  have "quiet_op (try_catch (andThen getSessionToken (\<lambda>tok. fetch_models tok [] MODELS_URLS))
          (\<lambda>error. return []))"
    by (intro quiet_intros models_urls_not_api)
  then have q: "quiet w w0"
    using f by (rule quiet_opD)
  then have fb: "fallbackModels w0 = FALLBACK_MODELS" using assms by (simp add: quiet_def)
  show ?thesis
    using f tr fb fallbacks_truthy
    by (auto simp: fetchAvailableModels_def andThen_def return_def this_FALLBACK_MODELS_def
          set_cachedModels_def)
qed

lemma getAvailableModels_result:
  assumes "cache_ok w" "fallbackModels w = FALLBACK_MODELS"
  shows "\<exists>ms w1. getAvailableModels w = (Inr ms, w1) \<and> ms \<noteq> [] \<and> list_all truthy ms
           \<and> cache_ok w1 \<and> fallbackModels w1 = FALLBACK_MODELS"
proof -
  obtain ms w1 where f: "fetchAvailableModels (clock w) w = (Inr ms, w1)" "ms \<noteq> []" "list_all truthy ms"
    "cachedModels w1 = Some ms"
    using fetchAvailableModels_result [OF assms(2)] by blast
  have "fallbackModels w1 = FALLBACK_MODELS"
    using quiet_opD [OF quiet_fetchAvailableModels f(1)] assms(2) by (simp add: quiet_def)
  with f assms show ?thesis
    by (auto simp: getAvailableModels_def io_defs this_cachedModels_def cache_ok_def
          split: option.splits)
qed

lemma getAvailableModels_total: "\<exists>ms w1. getAvailableModels w = (Inr ms, w1)"
proof -
  have "\<exists>ms w1. fetchAvailableModels t w = (Inr ms, w1)" for t
  proof -
    obtain r w0 where g: "getSessionToken w = (r, w0)" by (cases "getSessionToken w")
    show ?thesis
    proof (cases r)
      case (Inl e)
      with g show ?thesis
        by (simp add: fetchAvailableModels_def io_defs this_FALLBACK_MODELS_def set_cachedModels_def)
    next
      case (Inr tok)
      obtain ms1 w1 where "fetch_models tok [] MODELS_URLS w0 = (Inr ms1, w1)"
        using fetch_models_total [of "[]" tok MODELS_URLS w0] by auto
      with g Inr show ?thesis
        by (simp add: fetchAvailableModels_def io_defs this_FALLBACK_MODELS_def set_cachedModels_def)
    qed
  qed
  then show ?thesis
    by (auto simp: getAvailableModels_def io_defs this_cachedModels_def split: option.splits)
qed

lemma pickFallbackModel_not_null:
  assumes "ms \<noteq> []" "list_all truthy ms"
  shows "truthy_val (pickFallbackModel fb ms)"
proof (cases "find (\<lambda>candidate. JStr candidate \<in> set ms) fb")
  case None
  with assms show ?thesis
    by (cases ms) (auto simp: pickFallbackModel_def or_else_def first_of_def)
next
  case (Some c)
  then have "JStr c \<in> set ms" by (auto simp: find_Some_iff)
  with assms(2) have "truthy (JStr c)" by (auto simp: list_all_iff)
  with Some show ?thesis by (simp add: pickFallbackModel_def)
qed


definition stale :: "world \<Rightarrow> bool" where
  \<comment> \<open>no catalog is cached, or the cached one is five minutes old\<close>
  "stale w \<longleftrightarrow>
     (case cachedModels w of None \<Rightarrow> True | Some ms \<Rightarrow> \<not> clock w - cachedModelsAt w < MODELS_CACHE_TTL)"

lemma try_models_url_fails:
  assumes "net w = [] \<or> endpoint_fails (snd (hd (net w)))"
  shows "\<exists>w1. try_models_url tok [] u w = (Inr ([], False), w1) \<and> net w1 = tl (net w)"
  using assms
  by (auto simp: try_models_url_def io_defs fetch_def endpoint_fails_def
      split: list.splits prod.splits reply.splits option.splits)

lemma fetch_models_fails:
  assumes "list_all (\<lambda>(ms, r). endpoint_fails r) (take (length us) (net w))"
  shows "\<exists>w1. fetch_models tok [] us w = (Inr [], w1)"
  using assms
proof (induction us arbitrary: w)
  case Nil
  then show ?case by (simp add: io_defs)
next
  case (Cons u us)
  have "net w = [] \<or> endpoint_fails (snd (hd (net w)))"
    using Cons.prems by (cases "net w") auto
  then obtain w1 where t: "try_models_url tok [] u w = (Inr ([], False), w1)" "net w1 = tl (net w)"
    using try_models_url_fails by blast
  have "list_all (\<lambda>(ms, r). endpoint_fails r) (take (length us) (net w1))"
    using Cons.prems t(2) by (cases "net w") auto
  from Cons.IH [OF this] t show ?case by (simp add: io_defs)
qed

lemma fetchAvailableModels_token_fails:
  assumes "getSessionToken w = (Inl e, w0)" "fallbackModels w = FALLBACK_MODELS"
  shows "fetchAvailableModels t w
         = (Inr (map JStr FALLBACK_MODELS),
            w0\<lparr>cachedModels := Some (map JStr FALLBACK_MODELS), cachedModelsAt := t\<rparr>)"
proof -
  have "fallbackModels w0 = FALLBACK_MODELS"
    using quiet_opD [OF quiet_getSessionToken assms(1)] assms(2) by (simp add: quiet_def)
  then show ?thesis
    using assms(1)
    by (simp add: fetchAvailableModels_def io_defs this_FALLBACK_MODELS_def set_cachedModels_def)
qed

lemma fetchAvailableModels_endpoints_fail:
  assumes "getSessionToken w = (Inr tok, w0)" "fallbackModels w = FALLBACK_MODELS"
    and "list_all (\<lambda>(ms, r). endpoint_fails r) (take 2 (net w0))"
  shows "\<exists>w1. fetchAvailableModels t w = (Inr (map JStr FALLBACK_MODELS), w1)
           \<and> cachedModels w1 = Some (map JStr FALLBACK_MODELS) \<and> cachedModelsAt w1 = t"
proof -
  have "length MODELS_URLS = 2" by (simp add: MODELS_URLS_def)
  then obtain w1 where f: "fetch_models tok [] MODELS_URLS w0 = (Inr [], w1)"
    using fetch_models_fails [of MODELS_URLS w0 tok] assms(3) by auto
  have "quiet_op (andThen getSessionToken (\<lambda>tok. fetch_models tok [] MODELS_URLS))"
    by (intro quiet_intros models_urls_not_api)
  moreover have "andThen getSessionToken (\<lambda>tok. fetch_models tok [] MODELS_URLS) w = (Inr [], w1)"
    using assms(1) f by (simp add: io_defs)
  ultimately have "quiet w w1" by (rule quiet_opD)
  then have "fallbackModels w1 = FALLBACK_MODELS" using assms(2) by (simp add: quiet_def)
  then show ?thesis
    using assms(1) f
    by (simp add: fetchAvailableModels_def io_defs this_FALLBACK_MODELS_def set_cachedModels_def)
qed

lemma getAvailableModels_stale:
  "stale w \<Longrightarrow> getAvailableModels w = fetchAvailableModels (clock w) w"
  by (auto simp: getAvailableModels_def io_defs this_cachedModels_def stale_def split: option.splits)

subsection \<open>Chat requests\<close>

definition post_model :: "request \<Rightarrow> jsval list" where
  "post_model r =
     (if url r = API_URL then (case body r of ChatBody b \<Rightarrow> [b_model b] | _ \<Rightarrow> []) else [])"

definition posted_models :: "world \<Rightarrow> jsval list" where
  \<comment> \<open>the \<open>model\<close> of every chat request sent so far, oldest first\<close>
  "posted_models w = concat (map post_model (sent w))"

definition mentions_keyword :: "string \<Rightarrow> bool" where
  "mentions_keyword txt \<longleftrightarrow>
     str_includes (toLowerCase txt) ''model'' \<or> str_includes (toLowerCase txt) ''invalid''
     \<or> str_includes (toLowerCase txt) ''unsupported''"

lemma quiet_posted_models: "quiet w w1 \<Longrightarrow> posted_models w1 = posted_models w"
proof -
  assume "quiet w w1"
  then obtain rs where rs: "sent w1 = sent w @ rs" "list_all (\<lambda>r. url r \<noteq> API_URL) rs"
    by (auto simp: quiet_def)
  from rs(2) have "concat (map post_model rs) = []"
    by (induction rs) (auto simp: post_model_def)
  with rs(1) show ?thesis by (simp add: posted_models_def)
qed

lemma fetch_sent: "fetch rq w = (r, w1) \<Longrightarrow> sent w1 = sent w @ [rq]"
  by (auto simp: fetch_def split: list.splits prod.splits)

lemma fetch_fallbackModels: "fetch rq w = (r, w1) \<Longrightarrow> fallbackModels w1 = fallbackModels w"
  by (auto simp: fetch_def split: list.splits prod.splits)

lemma fetch_chat_posted:
  "fetch (chat_request hs b) w = (r, w1) \<Longrightarrow> posted_models w1 = posted_models w @ [b_model b]"
  by (drule fetch_sent) (simp add: posted_models_def post_model_def chat_request_def)

lemma handleStreamingResponse_sent:
  "handleStreamingResponse resp cb w = (r, w1) \<Longrightarrow> sent w1 = sent w"
  by (auto simp: handleStreamingResponse_def Let_def io_defs log_chunks_def split: if_splits)

lemma response_json_sent: "response_json resp w = (r, w1) \<Longrightarrow> w1 = w"
  by (auto simp: response_json_def io_defs split: option.splits)

lemma findFallbackModel_result:
  assumes "fallbackModels w = FALLBACK_MODELS"
  shows "\<exists>fbm w1. findFallbackModel cur w = (Inr (Some fbm), w1) \<and> truthy fbm \<and> Some fbm \<noteq> cur
           \<and> quiet w w1"
proof -
  obtain ms w1 where g: "getAvailableModels w = (Inr ms, w1)"
    using getAvailableModels_total by blast
  have q: "quiet w w1" using quiet_opD [OF quiet_getAvailableModels g] .
  then have fb: "fallbackModels w1 = FALLBACK_MODELS" using assms by (simp add: quiet_def)
  let ?pick = "pickFallbackModel FALLBACK_MODELS ms"
  show ?thesis
  proof (cases "ms \<noteq> [] \<and> truthy_val ?pick \<and> ?pick \<noteq> cur")
    case True
    then obtain fbm where "?pick = Some fbm" "truthy fbm"
      by (cases ?pick) auto
    with True g fb q show ?thesis
      by (auto simp: findFallbackModel_def io_defs this_FALLBACK_MODELS_def)
  next
    case False
    have "\<exists>c. find (\<lambda>candidate. Some (JStr candidate) \<noteq> cur) FALLBACK_MODELS = Some c \<and> c \<noteq> []"
      by (auto simp: FALLBACK_MODELS_def)
    then obtain c where c: "find (\<lambda>candidate. Some (JStr candidate) \<noteq> cur) FALLBACK_MODELS = Some c"
      "c \<noteq> []" by blast
    then have "Some (JStr c) \<noteq> cur" by (auto simp: find_Some_iff)
    with False g fb q c show ?thesis
      by (auto simp: findFallbackModel_def io_defs this_FALLBACK_MODELS_def)
  qed
qed


lemma shouldRetryWithFallback_iff:
  "shouldRetryWithFallback st txt
   \<longleftrightarrow> (st = 400 \<or> st = 404 \<or> st = 422) \<and> mentions_keyword txt"
  by (auto simp: shouldRetryWithFallback_def mentions_keyword_def)

lemma formatApiError_401:
  "formatApiError 401 txt
   = ''Copilot API error (401): Authentication failed. Please reconnect to GitHub Copilot.''"
  by (simp add: formatApiError_def)

definition finish :: "chat_options \<Rightarrow> response \<Rightarrow> chat_result io" where
  \<comment> \<open>the last statement of \<open>chat\<close>\<close>
  "finish opts answer =
     (if stream opts then handleStreamingResponse answer (onChunk opts)
      else andThen (response_json answer) (\<lambda>j. return (Body j)))"

lemma finish_sent: "finish opts answer w = (r, w1) \<Longrightarrow> sent w1 = sent w"
  by (auto simp: finish_def io_defs split: if_splits prod.splits sum.splits
      dest: handleStreamingResponse_sent response_json_sent)

lemma finish_posted: "finish opts answer w = (r, w1) \<Longrightarrow> posted_models w1 = posted_models w"
  by (drule finish_sent) (simp add: posted_models_def)

lemma andThen_Inr: "m w = (Inr a, w1) \<Longrightarrow> andThen m f w = f a w1"
  by (simp add: andThen_def)

lemma andThen_lift_Inr: "andThen (lift (Inr a)) f w = f a w"
  by (simp add: andThen_def lift_def)

lemma andThen_prefs: "andThen prefs f w = f (pref_temperature w, pref_maxTokens w) w"
  by (simp add: andThen_def prefs_def)

lemma chat_first_rejection:
  assumes tok: "getSessionToken w = (Inr tok, w1)"
    and resolved: "resolveModel (model opts) w1 = (Inr rm, w2)"
    and msgs: "normalizeMessagesForVision (messages opts) = Inr normalized"
    and first: "net w2 = (ms, Resolves resp) # rest" and rejected: "\<not> ok resp"
    and fb: "fallbackModels w = FALLBACK_MODELS"
  shows "((status resp = 400 \<or> status resp = 404 \<or> status resp = 422)
            \<and> mentions_keyword (body_text resp)
          \<longrightarrow> (\<exists>fbm r w5. chat opts w = (r, w5)
                  \<and> posted_models w5 = posted_models w @ [rm, Some fbm]
                  \<and> truthy fbm \<and> Some fbm \<noteq> rm))
       \<and> (\<not> ((status resp = 400 \<or> status resp = 404 \<or> status resp = 422)
               \<and> mentions_keyword (body_text resp))
          \<longrightarrow> (\<exists>w3. chat opts w
                       = (Inl (Error (formatApiError (status resp) (body_text resp))), w3)
                  \<and> posted_models w3 = posted_models w @ [rm]))
       \<and> (status resp = 401
          \<longrightarrow> (\<exists>w3. chat opts w
                       = (Inl (Error ''Copilot API error (401): Authentication failed. Please reconnect to GitHub Copilot.''), w3)
                  \<and> posted_models w3 = posted_models w @ [rm]))"
proof -
  let ?temp = "if \<not> nullish (temperature opts) then Given (the (temperature opts))
               else if \<not> nullish (pref_temperature w2) then Given (the (pref_temperature w2))
               else Default_0_3"
  let ?tokens = "if \<not> nullish (maxTokens opts) then the (maxTokens opts)
                 else if \<not> nullish (pref_maxTokens w2) then the (pref_maxTokens w2)
                 else JNum 2000"
  let ?hdrs = "buildHeaders (stream opts) (hasVisionRequest normalized) tok"
  let ?body_for = "\<lambda>m. \<lparr>b_model = m, b_messages = normalized, b_stream = stream opts,
                          b_temperature = ?temp, b_max_tokens = ?tokens\<rparr>"
  define hdrs where "hdrs = ?hdrs"
  define body_for where "body_for = ?body_for"
  define w3 where "w3 = after_fetch w2 ms rest (chat_request hdrs (body_for rm))"
  define after_first where "after_first =
       (if shouldRetryWithFallback (status resp) (body_text resp) then
             andThen (findFallbackModel rm) (\<lambda>fallbackModel.
             if truthy_val fallbackModel \<and> fallbackModel \<noteq> rm then
               andThen (fetch (chat_request hdrs (body_for fallbackModel))) (\<lambda>resp2.
               if \<not> ok resp2
               then throw (Error (formatApiError (status resp2) (body_text resp2)))
               else return resp2)
             else throw (Error (formatApiError (status resp) (body_text resp))))
           else throw (Error (formatApiError (status resp) (body_text resp))))"
  have f1: "fetch (chat_request hdrs (body_for rm)) w2 = (Inr resp, w3)"
    using first by (simp add: fetch_Resolves w3_def)
  have s1: "andThen getSessionToken f w = f tok w1" for f :: "json \<Rightarrow> chat_result io"
    using tok by (simp add: andThen_def)
  have s2: "andThen (resolveModel (model opts)) f w1 = f rm w2" for f :: "jsval \<Rightarrow> chat_result io"
    using resolved by (simp add: andThen_def)
  have s3: "andThen (fetch (chat_request ?hdrs (?body_for rm))) f w2 = f resp w3"
    for f :: "response \<Rightarrow> chat_result io"
    using f1 unfolding hdrs_def body_for_def by (simp only: andThen_def prod.case sum.case)
  have nok: "ok resp = False" using rejected by simp
  have chat: "chat opts w = andThen after_first (finish opts) w3"
    unfolding chat_def after_first_def hdrs_def body_for_def finish_def [abs_def]
    by (simp only: s1 s2 msgs andThen_lift_Inr andThen_prefs prod.case Let_def s3 nok
          not_False_eq_True if_True)
  have q: "quiet w w2"
    using quiet_opD [OF quiet_getSessionToken tok] quiet_opD [OF quiet_resolveModel resolved]
    by (rule quiet_trans)
  have p3: "posted_models w3 = posted_models w @ [rm]"
    using fetch_chat_posted [OF f1] quiet_posted_models [OF q] by (simp add: body_for_def)
  have fb3: "fallbackModels w3 = FALLBACK_MODELS"
    using q fb fetch_fallbackModels [OF f1] by (simp add: quiet_def)
  have no_retry: "\<exists>w3. chat opts w = (Inl (Error (formatApiError (status resp) (body_text resp))), w3)
                  \<and> posted_models w3 = posted_models w @ [rm]"
    if "\<not> shouldRetryWithFallback (status resp) (body_text resp)"
    using that chat p3 by (simp add: after_first_def io_defs)
  have retry: "\<exists>fbm r w5. chat opts w = (r, w5)
                  \<and> posted_models w5 = posted_models w @ [rm, Some fbm]
                  \<and> truthy fbm \<and> Some fbm \<noteq> rm"
    if sr: "shouldRetryWithFallback (status resp) (body_text resp)"
  proof -
    obtain fbm w4 where ff: "findFallbackModel rm w3 = (Inr (Some fbm), w4)" "truthy fbm"
      "Some fbm \<noteq> rm" "quiet w3 w4"
      using findFallbackModel_result [OF fb3] by blast
    obtain r2 w5 where f2: "fetch (chat_request hdrs (body_for (Some fbm))) w4 = (r2, w5)"
      by (cases "fetch (chat_request hdrs (body_for (Some fbm))) w4")
    have p5: "posted_models w5 = posted_models w @ [rm, Some fbm]"
      using fetch_chat_posted [OF f2] quiet_posted_models [OF ff(4)] p3 by (simp add: body_for_def)
    obtain r w6 where c: "chat opts w = (r, w6)" by (cases "chat opts w")
    have "posted_models w6 = posted_models w5"
    proof (cases r2)
      case (Inl e)
      with c chat sr ff f2 show ?thesis by (simp add: after_first_def io_defs)
    next
      case (Inr resp2)
      show ?thesis
      proof (cases "ok resp2")
        case True
        with c chat sr ff f2 Inr have "finish opts resp2 w5 = (r, w6)"
          by (simp add: after_first_def io_defs)
        then show ?thesis by (rule finish_posted)
      next
        case False
        with c chat sr ff f2 Inr show ?thesis by (simp add: after_first_def io_defs)
      qed
    qed
    with c p5 ff show ?thesis by auto
  qed
  have s401: "status resp = 401 \<Longrightarrow> \<not> shouldRetryWithFallback (status resp) (body_text resp)"
    by (simp add: shouldRetryWithFallback_def)
  show ?thesis
  proof (intro conjI impI)
    assume "(status resp = 400 \<or> status resp = 404 \<or> status resp = 422) \<and> mentions_keyword (body_text resp)"
    then show "\<exists>fbm r w5. chat opts w = (r, w5)
                  \<and> posted_models w5 = posted_models w @ [rm, Some fbm]
                  \<and> truthy fbm \<and> Some fbm \<noteq> rm"
      by (intro retry) (simp add: shouldRetryWithFallback_iff)
  next
    assume "\<not> ((status resp = 400 \<or> status resp = 404 \<or> status resp = 422) \<and> mentions_keyword (body_text resp))"
    then show "\<exists>w3. chat opts w = (Inl (Error (formatApiError (status resp) (body_text resp))), w3)
                  \<and> posted_models w3 = posted_models w @ [rm]"
      by (intro no_retry) (simp add: shouldRetryWithFallback_iff)
  next
    assume "status resp = 401"
    then show "\<exists>w3. chat opts w
                       = (Inl (Error ''Copilot API error (401): Authentication failed. Please reconnect to GitHub Copilot.''), w3)
                  \<and> posted_models w3 = posted_models w @ [rm]"
      using no_retry [OF s401] by (simp add: formatApiError_401)
  qed
qed

section \<open>Worlds for the examples\<close>

definition resolve_spec :: "string list \<Rightarrow> json list \<Rightarrow> json \<Rightarrow> json" where
  \<comment> \<open>the resolution as C5 words it\<close>
  "resolve_spec ranking catalog requested =
     (if requested \<in> set catalog then requested
      else (case find (\<lambda>c. JStr c \<in> set catalog) ranking of
              Some c \<Rightarrow> JStr c
            | None \<Rightarrow> (case catalog of x # _ \<Rightarrow> x | [] \<Rightarrow> requested)))"

definition empty_world :: world where
  "empty_world =
     \<lparr>clock = 1700000000000, lm_available = True, logins = [],
      net = [], sent = [], cachedModels = None, cachedModelsAt = 0,
      fallbackModels = FALLBACK_MODELS, currentFlow = None,
      pref_temperature = None, pref_maxTokens = None, chunk_calls = [], status_calls = []\<rparr>"

definition world_stored :: world where
  "world_stored =
     empty_world\<lparr>logins := [createLoginInfo ''realm''
        (JSON_stringify (JObj [(''storedAt'', JNum 1700000000000)])) ''secret'']\<rparr>"

definition world_two_stores :: world where
  "world_two_stores =
     empty_world\<lparr>logins := [createLoginInfo ''realm''
        (JSON_stringify (JObj [(''user'', JStr ''octocat''), (''storedAt'', JNum 1700000000000)])) ''second'']\<rparr>"

definition world_abc :: world where
  "world_abc =
     empty_world\<lparr>cachedModels := Some [JStr ''a'', JStr ''b'', JStr ''c''],
                  cachedModelsAt := 1700000000000,
                  fallbackModels := [''b'', ''a'']\<rparr>"

lemma storeToken_empty_world:
  "storeToken r s m empty_world
   = (Inr True, empty_world\<lparr>logins := [createLoginInfo r (JSON_stringify (JObj (obj_put m ''storedAt'' (JNum 1700000000000)))) s]\<rparr>)"
  using storeToken_available [of empty_world r s m]
  by (simp add: empty_world_def)

definition session_login :: "int \<Rightarrow> login" where
  "session_login e =
     createLoginInfo GITHUB_COPILOT_SESSION
       (JSON_stringify (JObj [(''expiresAt'', JNum e), (''storedAt'', JNum 1699999000000)]))
       ''session-old''"

definition access_login :: login where
  "access_login =
     createLoginInfo GITHUB_COPILOT
       (JSON_stringify (JObj [(''user'', JNull), (''storedAt'', JNum 1699990000000)]))
       ''gho_access''"

definition token_reply :: response where
  \<open>token_reply =
     \<lparr>status = 200, statusText = ''OK'',
      chunks = [''{"token":"session-new","expires_at":1700001800}''], x_model = None\<rparr>\<close>

definition reply_401 :: response where
  \<open>reply_401 =
     \<lparr>status = 401, statusText = ''Unauthorized'',
      chunks = [''{"message":"Bad credentials"}''], x_model = None\<rparr>\<close>

definition world_fresh :: world where
  "world_fresh = empty_world\<lparr>logins := [access_login, session_login 1700000600000]\<rparr>"

definition world_stale :: world where
  "world_stale = empty_world\<lparr>logins := [access_login, session_login 1700000180000],
                              net := [(40, Resolves token_reply)]\<rparr>"

definition world_no_access :: world where
  "world_no_access = empty_world\<lparr>logins := [session_login 1700000180000]\<rparr>"

definition world_401 :: world where
  "world_401 = empty_world\<lparr>logins := [access_login, session_login 1700000180000],
                            net := [(40, Resolves reply_401)]\<rparr>"

lemma realms_differ [simp]:
  "GITHUB_COPILOT \<noteq> GITHUB_COPILOT_SESSION" "GITHUB_COPILOT_SESSION \<noteq> GITHUB_COPILOT"
  by (simp_all add: GITHUB_COPILOT_def GITHUB_COPILOT_SESSION_def)

lemma in_realm_examples [simp]:
  "in_realm r (session_login e) \<longleftrightarrow> r = GITHUB_COPILOT_SESSION"
  "in_realm r access_login \<longleftrightarrow> r = GITHUB_COPILOT"
  by (simp_all add: session_login_def access_login_def)

lemma parse_session_login:
  "JSON_parse (username (session_login e))
   = Some (JObj [(''expiresAt'', JNum e), (''storedAt'', JNum 1699999000000)])"
  unfolding session_login_def createLoginInfo_fields by (rule JSON_roundtrip) simp

lemma parse_access_login:
  "JSON_parse (username access_login) = Some (JObj [(''user'', JNull), (''storedAt'', JNum 1699990000000)])"
  unfolding access_login_def createLoginInfo_fields by (rule JSON_roundtrip) simp

lemma password_examples [simp]:
  "password (session_login e) = ''session-old''" "password access_login = ''gho_access''"
  by (simp_all add: session_login_def access_login_def)

lemma getToken_examples:
  "getToken GITHUB_COPILOT_SESSION world_fresh
   = (Inr (Some \<lparr>token = ''session-old'',
                  metadata = JObj [(''expiresAt'', JNum 1700000600000), (''storedAt'', JNum 1699999000000)]\<rparr>),
      world_fresh)"
  "getToken GITHUB_COPILOT_SESSION world_stale
   = (Inr (Some \<lparr>token = ''session-old'',
                  metadata = JObj [(''expiresAt'', JNum 1700000180000), (''storedAt'', JNum 1699999000000)]\<rparr>),
      world_stale)"
  "getToken GITHUB_COPILOT world_stale
   = (Inr (Some \<lparr>token = ''gho_access'',
                  metadata = JObj [(''user'', JNull), (''storedAt'', JNum 1699990000000)]\<rparr>), world_stale)"
  "getToken GITHUB_COPILOT_SESSION world_no_access
   = (Inr (Some \<lparr>token = ''session-old'',
                  metadata = JObj [(''expiresAt'', JNum 1700000180000), (''storedAt'', JNum 1699999000000)]\<rparr>),
      world_no_access)"
  "getToken GITHUB_COPILOT world_no_access = (Inr None, world_no_access)"
  "getToken GITHUB_COPILOT_SESSION world_401
   = (Inr (Some \<lparr>token = ''session-old'',
                  metadata = JObj [(''expiresAt'', JNum 1700000180000), (''storedAt'', JNum 1699999000000)]\<rparr>),
      world_401)"
  "getToken GITHUB_COPILOT world_401
   = (Inr (Some \<lparr>token = ''gho_access'',
                  metadata = JObj [(''user'', JNull), (''storedAt'', JNum 1699990000000)]\<rparr>), world_401)"
  by (simp_all add: getToken_available world_fresh_def world_stale_def world_no_access_def
        world_401_def empty_world_def parse_session_login parse_access_login)

lemma parse_token_reply:
  "JSON_parse (body_text token_reply)
   = Some (JObj [(''token'', JStr ''session-new''), (''expires_at'', JNum 1700001800)])"
  by (simp add: token_reply_def body_text_def JSON_parse_def skip_ws_def is_json_ws_def dquote_def
        backslash_def control_chars_def parse_number_def obj_put_def is_digit_def digits_val_def
        digit_val_def)

definition reply_503 :: response where
  "reply_503 = \<lparr>status = 503, statusText = ''Service Unavailable'',
                chunks = [''upstream unavailable''], x_model = None\<rparr>"

definition world_endpoints_down :: world where
  "world_endpoints_down =
     world_fresh\<lparr>net := [(10, Resolves reply_503), (12, Rejects ''NetworkError'')]\<rparr>"

lemma getSessionToken_endpoints_down:
  "getSessionToken world_endpoints_down = (Inr (JStr ''session-old''), world_endpoints_down)"
proof -
  have "getToken GITHUB_COPILOT_SESSION world_endpoints_down
   = (Inr (Some \<lparr>token = ''session-old'',
                  metadata = JObj [(''expiresAt'', JNum 1700000600000), (''storedAt'', JNum 1699999000000)]\<rparr>),
      world_endpoints_down)"
    by (simp add: getToken_available world_endpoints_down_def world_fresh_def empty_world_def
          parse_session_login)
  then show ?thesis
    by (rule getSessionToken_fresh [where e = 1700000600000])
       (simp_all add: world_endpoints_down_def world_fresh_def empty_world_def)
qed

definition opts_4o :: chat_options where
  "opts_4o =
     \<lparr>model = Some (JStr ''gpt-4o''),
      messages = Some (JArr [JObj [(''role'', JStr ''user''), (''content'', JStr ''Summarise this paper.'')]]),
      stream = True, onChunk = True, temperature = None, maxTokens = None\<rparr>"

definition world_catalog :: world where
  "world_catalog =
     world_fresh\<lparr>cachedModels := Some [JStr ''gpt-4o'', JStr ''gpt-5''],
                  cachedModelsAt := 1700000000000\<rparr>"

definition reply_model_not_found :: response where
  \<open>reply_model_not_found =
     \<lparr>status = 404, statusText = ''Not Found'',
      chunks = [''{"error":{"message":"model not found"}}''], x_model = None\<rparr>\<close>

definition reply_invalid_body :: response where
  "reply_invalid_body =
     \<lparr>status = 400, statusText = ''Bad Request'',
      chunks = [''Invalid request body''], x_model = None\<rparr>"

lemma getSessionToken_world_catalog:
  "getSessionToken (world_catalog\<lparr>net := n\<rparr>) = (Inr (JStr ''session-old''), world_catalog\<lparr>net := n\<rparr>)"
proof -
  have "getToken GITHUB_COPILOT_SESSION (world_catalog\<lparr>net := n\<rparr>)
   = (Inr (Some \<lparr>token = ''session-old'',
                  metadata = JObj [(''expiresAt'', JNum 1700000600000), (''storedAt'', JNum 1699999000000)]\<rparr>),
      world_catalog\<lparr>net := n\<rparr>)"
    by (simp add: getToken_available world_catalog_def world_fresh_def empty_world_def
          parse_session_login)
  then show ?thesis
    by (rule getSessionToken_fresh [where e = 1700000600000])
       (simp_all add: world_catalog_def world_fresh_def empty_world_def)
qed

lemma resolveModel_world_catalog:
  "resolveModel (Some (JStr ''gpt-4o'')) (world_catalog\<lparr>net := n\<rparr>)
   = (Inr (Some (JStr ''gpt-4o'')), world_catalog\<lparr>net := n\<rparr>)"
  by (simp add: resolveModel_def getAvailableModels_def io_defs this_cachedModels_def
        this_FALLBACK_MODELS_def world_catalog_def world_fresh_def empty_world_def MODELS_CACHE_TTL_def)

lemma normalize_opts_4o:
  "normalizeMessagesForVision (messages opts_4o)
   = Inr [JObj [(''role'', JStr ''user''), (''content'', JStr ''Summarise this paper.'')]]"
  by (simp add: normalizeMessagesForVision_def opts_4o_def is_array_def array_items_def
        normalize_message_def field_def or_else_def)

lemma world_catalog_facts:
  "fallbackModels (world_catalog\<lparr>net := n\<rparr>) = FALLBACK_MODELS"
  "posted_models (world_catalog\<lparr>net := n\<rparr>) = []"
  by (simp_all add: world_catalog_def world_fresh_def empty_world_def posted_models_def)

section \<open>Claims\<close>

subsection \<open>C8: the message of a rejected chat request\<close>

text \<open>
  C8 says that for a rejection whose status is neither 401 nor 403 the message carries the
  error message of a JSON body, and otherwise the raw body cut to 200 characters and an
  ellipsis.  \<open>formatApiError\<close> cuts the raw text only in the \<open>catch\<close> of \<open>JSON.parse\<close>, and it
  calls \<open>JSON.parse\<close> only on a body that starts with a brace or a bracket.  A plain-text
  body of 201 characters under status 500 comes back whole.
\<close>

theorem formatApiError_plain_text_untruncated:
  "formatApiError 500 (replicate 201 (CHR ''x''))
   = ''Copilot API error (500): '' @ replicate 201 (CHR ''x'')"
  by code_simp

subsection \<open>C10: a record without \<open>storedAt\<close> has no maximum age\<close>

text \<open>
  C10: when the metadata of the stored record has no \<open>storedAt\<close>, \<open>hasValidToken(realm,
  maxAge)\<close> answers true for every \<open>maxAge\<close> as soon as \<open>expiresAt\<close> is absent or not yet
  passed: the age of the record is never looked at.
\<close>

theorem hasValidToken_without_storedAt:
  assumes "getToken realm w = (Inr (Some r), w)"
    and "get_prop (Some (metadata r)) ''storedAt'' = Inr None"
    and "get_prop (Some (metadata r)) ''expiresAt'' = Inr None
         \<or> (\<exists>e. get_prop (Some (metadata r)) ''expiresAt'' = Inr (Some (JNum e)) \<and> clock w \<le> e)"
  shows "hasValidToken realm maxAge w = (Inr True, w)"
  using assms
  by (auto simp: hasValidToken_def io_defs num_gt_def)

text \<open>
  The example of the claim: the persisted metadata string is not JSON, so \<open>getToken\<close> puts
  the empty object in its place; the record counts as valid under a maximum age of one
  millisecond, whatever its age.
\<close>

definition world_not_json :: world where
  "world_not_json =
     \<lparr>clock = 1700000000000, lm_available = True,
      logins = [\<lparr>hostname = HOSTNAME, httpRealm = GITHUB_COPILOT,
                 username = ''not json'', password = ''gho_token''\<rparr>],
      net = [], sent = [], cachedModels = None, cachedModelsAt = 0,
      fallbackModels = FALLBACK_MODELS, currentFlow = None,
      pref_temperature = None, pref_maxTokens = None, chunk_calls = [], status_calls = []\<rparr>"

lemma getToken_world_not_json:
  "getToken GITHUB_COPILOT world_not_json
   = (Inr (Some \<lparr>token = ''gho_token'', metadata = JObj []\<rparr>), world_not_json)"
proof -
  have "JSON_parse ''not json'' = None"
    by code_simp
  then show ?thesis
    by (simp add: getToken_def findLogins_def io_defs world_not_json_def)
qed

theorem hasValidToken_without_storedAt_witness:
  "getToken GITHUB_COPILOT world_not_json
     = (Inr (Some \<lparr>token = ''gho_token'', metadata = JObj []\<rparr>), world_not_json)
   \<and> hasValidToken GITHUB_COPILOT (JNum 1) world_not_json = (Inr True, world_not_json)"
  using hasValidToken_without_storedAt
          [of GITHUB_COPILOT world_not_json "\<lparr>token = ''gho_token'', metadata = JObj []\<rparr>" "JNum 1"]
        getToken_world_not_json
  by simp


subsection \<open>C6: store, then load\<close>

text \<open>
  C6 as stated: \<open>store(realm, secret, metadata)\<close> followed by \<open>load(realm)\<close> returns the
  just-stored secret and metadata.  It fails on the metadata: \<open>storeToken\<close> writes
  \<open>{...metadata, storedAt: Date.now()}\<close>, so a \<open>storedAt\<close> of the caller's is replaced by the
  time of the store.  Storing the metadata \<open>{storedAt: 5}\<close> at time 1700000000000 and loading
  gives the metadata \<open>{storedAt: 1700000000000}\<close>.
\<close>

theorem storeToken_getToken_counterexample:
  "storeToken ''realm'' ''secret'' [(''storedAt'', JNum 5)] empty_world = (Inr True, world_stored)
   \<and> getToken ''realm'' world_stored
       = (Inr (Some \<lparr>token = ''secret'', metadata = JObj [(''storedAt'', JNum 1700000000000)]\<rparr>), world_stored)
   \<and> JObj [(''storedAt'', JNum 1700000000000)] \<noteq> JObj [(''storedAt'', JNum 5)]"
proof -
  have s: "storeToken ''realm'' ''secret'' [(''storedAt'', JNum 5)] empty_world = (Inr True, world_stored)"
    by (simp add: world_stored_def storeToken_empty_world obj_put_def)
  have "JSON_parse (JSON_stringify (JObj [(''storedAt'', JNum 1700000000000)]))
        = Some (JObj [(''storedAt'', JNum 1700000000000)])"
    by (rule JSON_roundtrip) simp
  then have g: "getToken ''realm'' world_stored
       = (Inr (Some \<lparr>token = ''secret'', metadata = JObj [(''storedAt'', JNum 1700000000000)]\<rparr>), world_stored)"
    using getToken_available [of world_stored "''realm''"]
    by (simp add: world_stored_def empty_world_def)
  from s g show ?thesis by simp
qed

text \<open>
  C6 as amended: a store that reports success, followed by a load, returns the just-stored
  secret and the metadata with its \<open>storedAt\<close> member set to the time of the store; and after
  a second successful store for the same realm the login manager holds exactly one login
  for the realm, the one stored last.  The metadata is a map: each key once, at every depth
  (\<open>wf_json\<close>).
\<close>

theorem storeToken_getToken:
  assumes first: "storeToken realm secret1 meta1 w = (Inr True, w1)"
    and second: "storeToken realm secret2 meta2 w1 = (Inr True, w2)"
    and wf: "wf_json (JObj meta1)" "wf_json (JObj meta2)"
  shows "getToken realm w1
           = (Inr (Some \<lparr>token = secret1,
                          metadata = JObj (obj_put meta1 ''storedAt'' (JNum (clock w)))\<rparr>), w1)
         \<and> getToken realm w2
           = (Inr (Some \<lparr>token = secret2,
                          metadata = JObj (obj_put meta2 ''storedAt'' (JNum (clock w1)))\<rparr>), w2)
         \<and> findLogins HOSTNAME realm w2
           = (Inr [createLoginInfo realm
                     (JSON_stringify (JObj (obj_put meta2 ''storedAt'' (JNum (clock w1))))) secret2], w2)"
proof -
  have a: "lm_available w" using first by (rule storeToken_True_available)
  have a1: "lm_available w1" using second by (rule storeToken_True_available)
  have w1: "w1 = w\<lparr>logins := filter (\<lambda>l. \<not> in_realm realm l) (logins w)
                 @ [createLoginInfo realm
                      (JSON_stringify (JObj (obj_put meta1 ''storedAt'' (JNum (clock w))))) secret1]\<rparr>"
    using first storeToken_available [OF a, of realm secret1 meta1] by simp
  have w2: "w2 = w1\<lparr>logins := filter (\<lambda>l. \<not> in_realm realm l) (logins w1)
                 @ [createLoginInfo realm
                      (JSON_stringify (JObj (obj_put meta2 ''storedAt'' (JNum (clock w1))))) secret2]\<rparr>"
    using second storeToken_available [OF a1, of realm secret2 meta2] by simp
  have a2: "lm_available w2" using a1 w2 by simp
  have f1: "filter (in_realm realm) (logins w1)
            = [createLoginInfo realm (JSON_stringify (JObj (obj_put meta1 ''storedAt'' (JNum (clock w))))) secret1]"
    unfolding w1 by simp
  have f2: "filter (in_realm realm) (logins w2)
            = [createLoginInfo realm (JSON_stringify (JObj (obj_put meta2 ''storedAt'' (JNum (clock w1))))) secret2]"
    unfolding w2 by simp
  have r1: "JSON_parse (JSON_stringify (JObj (obj_put meta1 ''storedAt'' (JNum (clock w)))))
            = Some (JObj (obj_put meta1 ''storedAt'' (JNum (clock w))))"
    by (intro JSON_roundtrip wf_json_obj_put wf) simp
  have r2: "JSON_parse (JSON_stringify (JObj (obj_put meta2 ''storedAt'' (JNum (clock w1)))))
            = Some (JObj (obj_put meta2 ''storedAt'' (JNum (clock w1))))"
    by (intro JSON_roundtrip wf_json_obj_put wf) simp
  show ?thesis
    using getToken_available [OF a1, of realm] getToken_available [OF a2, of realm]
      findLogins_available [OF a2, of realm] f1 f2 r1 r2
    by simp
qed

theorem storeToken_getToken_witness:
  "storeToken ''realm'' ''secret'' [(''storedAt'', JNum 5)] empty_world = (Inr True, world_stored)
   \<and> storeToken ''realm'' ''second'' [(''user'', JStr ''octocat'')] world_stored = (Inr True, world_two_stores)
   \<and> getToken ''realm'' world_stored
       = (Inr (Some \<lparr>token = ''secret'', metadata = JObj [(''storedAt'', JNum 1700000000000)]\<rparr>), world_stored)
   \<and> getToken ''realm'' world_two_stores
       = (Inr (Some \<lparr>token = ''second'',
                      metadata = JObj [(''user'', JStr ''octocat''), (''storedAt'', JNum 1700000000000)]\<rparr>),
          world_two_stores)
   \<and> findLogins HOSTNAME ''realm'' world_two_stores
       = (Inr [createLoginInfo ''realm''
                 (JSON_stringify (JObj [(''user'', JStr ''octocat''), (''storedAt'', JNum 1700000000000)]))
                 ''second''], world_two_stores)"
proof -
  have s1: "storeToken ''realm'' ''secret'' [(''storedAt'', JNum 5)] empty_world = (Inr True, world_stored)"
    by (simp add: world_stored_def storeToken_empty_world obj_put_def)
  have s2: "storeToken ''realm'' ''second'' [(''user'', JStr ''octocat'')] world_stored = (Inr True, world_two_stores)"
    using storeToken_available [of world_stored "''realm''" "''second''" "[(''user'', JStr ''octocat'')]"]
    by (simp add: world_stored_def world_two_stores_def empty_world_def obj_put_def)
  have c: "clock world_stored = 1700000000000" "clock empty_world = 1700000000000"
    by (simp_all add: world_stored_def empty_world_def)
  from storeToken_getToken [OF s1 s2] s1 s2 show ?thesis
    by (simp add: obj_put_def c)
qed

subsection \<open>C5: resolving a requested model\<close>

text \<open>
  C5: \<open>resolveModel(requested)\<close> returns \<open>requested\<close> when the catalog that
  \<open>getAvailableModels\<close> answers holds it; otherwise the first entry of the ranked fallback
  list that the catalog holds, else the first catalog entry, else (empty catalog)
  \<open>requested\<close> itself.  Model identifiers are truthy values (no empty string), the requested
  one and those of the catalog.
\<close>

theorem resolveModel_spec:
  assumes "getAvailableModels w = (Inr catalog, w1)"
    and "truthy requested" and "list_all truthy catalog"
  shows "resolveModel (Some requested) w
         = (Inr (Some (resolve_spec (fallbackModels w) catalog requested)), w1)"
proof -
  have fb: "fallbackModels w1 = fallbackModels w"
    using quiet_opD [OF quiet_getAvailableModels assms(1)] by (simp add: quiet_def)
  have tr: "\<forall>m\<in>set catalog. truthy m"
    using assms(3) by (simp add: list_all_iff)
  show ?thesis
  proof (cases "requested \<in> set catalog")
    case True
    then show ?thesis using assms fb
      by (auto simp: resolveModel_def io_defs this_FALLBACK_MODELS_def resolve_spec_def)
  next
    case notin: False
    show ?thesis
    proof (cases "find (\<lambda>c. JStr c \<in> set catalog) (fallbackModels w)")
      case None
      then show ?thesis using assms(1,2) tr notin fb
        by (cases catalog)
           (auto simp: resolveModel_def io_defs this_FALLBACK_MODELS_def resolve_spec_def
              pickFallbackModel_def or_else_def first_of_def)
    next
      case (Some c)
      then have "JStr c \<in> set catalog" by (auto simp: find_Some_iff)
      then have "truthy (JStr c)" "catalog \<noteq> []" using tr by auto
      then show ?thesis using assms(1,2) notin Some fb
        by (auto simp: resolveModel_def io_defs this_FALLBACK_MODELS_def resolve_spec_def
              pickFallbackModel_def or_else_def first_of_def)
    qed
  qed
qed

text \<open>
  The example of the claim: the catalog is \<open>["a","b","c"]\<close>, the fallback ranking
  \<open>["b","a"]\<close>, and \<open>resolveModel("gpt-9-fake")\<close> returns \<open>"b"\<close>.
\<close>

lemma getAvailableModels_world_abc:
  "getAvailableModels world_abc = (Inr [JStr ''a'', JStr ''b'', JStr ''c''], world_abc)"
  by (simp add: getAvailableModels_def io_defs this_cachedModels_def world_abc_def empty_world_def
        MODELS_CACHE_TTL_def)

theorem resolveModel_spec_witness:
  "getAvailableModels world_abc = (Inr [JStr ''a'', JStr ''b'', JStr ''c''], world_abc)
   \<and> truthy (JStr ''gpt-9-fake'')
   \<and> list_all truthy [JStr ''a'', JStr ''b'', JStr ''c'']
   \<and> fallbackModels world_abc = [''b'', ''a'']
   \<and> resolveModel (Some (JStr ''gpt-9-fake'')) world_abc = (Inr (Some (JStr ''b'')), world_abc)"
  using resolveModel_spec [OF getAvailableModels_world_abc, of "JStr ''gpt-9-fake''"]
        getAvailableModels_world_abc
  by (simp add: resolve_spec_def world_abc_def)


subsection \<open>C1: the five-minute buffer of \<open>getSessionToken\<close>\<close>



subsection \<open>C4: a refresh that cannot succeed\<close>

text \<open>
  C4 as stated: when \<open>getSessionToken()\<close> must refresh and the access-token record is absent,
  both credential records are deleted and a failure is raised.  The failure is raised, but
  nothing is deleted: the function throws before it reaches \<open>disconnect\<close>.  With a session
  record three minutes from expiry and no access-token record, the session record is still
  there after the call.
\<close>

theorem getSessionToken_refresh_failure_counterexample:
  "getToken GITHUB_COPILOT world_no_access = (Inr None, world_no_access)
   \<and> getSessionToken world_no_access
       = (Inl (Error ''Not authenticated. Please connect to GitHub Copilot.''), world_no_access)
   \<and> getToken GITHUB_COPILOT_SESSION world_no_access
       = (Inr (Some \<lparr>token = ''session-old'',
                      metadata = JObj [(''expiresAt'', JNum 1700000180000),
                                       (''storedAt'', JNum 1699999000000)]\<rparr>),
          world_no_access)"
proof -
  have "getSessionToken world_no_access = refreshSessionToken world_no_access"
    by (rule getSessionToken_stale
              [OF getToken_examples(4), of "''session-old''"
                 "[(''expiresAt'', JNum 1700000180000), (''storedAt'', JNum 1699999000000)]"])
       (simp add: world_no_access_def empty_world_def)
  then show ?thesis
    using refreshSessionToken_no_auth [of world_no_access] getToken_examples(4,5)
    by simp
qed

text \<open>
  C4 as amended: when \<open>getSessionToken()\<close> must refresh, then (1) with the access-token
  record absent, or its token empty, it throws "Not authenticated" and leaves the world as
  it is; (2) when the exchange fails with an error whose message contains "401", "invalid"
  or "expired", both credential records are deleted and it throws "GitHub session expired";
  (3) a 401 from the token endpoint is such a failure.  In no case is a token returned.
\<close>

theorem getSessionToken_refresh_failure:
  assumes rec: "getToken GITHUB_COPILOT_SESSION w = (Inr session, w)"
    and must_refresh:
      "session = None \<or> session = Some \<lparr>token = stored, metadata = JObj md\<rparr>
         \<and> (map_of md ''expiresAt'' = None
              \<or> (\<exists>e. map_of md ''expiresAt'' = Some (JNum e) \<and> e \<le> clock w + 5 * 60 * 1000))"
  shows "((getToken GITHUB_COPILOT w = (Inr None, w)
           \<or> (\<exists>a. getToken GITHUB_COPILOT w = (Inr (Some a), w) \<and> token a = []))
          \<longrightarrow> getSessionToken w
              = (Inl (Error ''Not authenticated. Please connect to GitHub Copilot.''), w))
       \<and> (\<forall>a err w2.
            getToken GITHUB_COPILOT w = (Inr (Some a), w) \<and> token a \<noteq> []
            \<and> getCopilotToken (token a) w = (Inl err, w2)
            \<and> (str_includes (message err) ''401'' \<or> str_includes (message err) ''invalid''
                \<or> str_includes (message err) ''expired'')
            \<longrightarrow> (\<exists>w3. getSessionToken w
                        = (Inl (Error ''GitHub session expired. Please reconnect to GitHub Copilot.''), w3)
                      \<and> getToken GITHUB_COPILOT w3 = (Inr None, w3)
                      \<and> getToken GITHUB_COPILOT_SESSION w3 = (Inr None, w3)))
       \<and> (\<forall>a ms resp rest.
            getToken GITHUB_COPILOT w = (Inr (Some a), w) \<and> token a \<noteq> []
            \<and> net w = (ms, Resolves resp) # rest \<and> status resp = 401
            \<longrightarrow> (\<exists>w3. getSessionToken w
                        = (Inl (Error ''GitHub session expired. Please reconnect to GitHub Copilot.''), w3)
                      \<and> getToken GITHUB_COPILOT w3 = (Inr None, w3)
                      \<and> getToken GITHUB_COPILOT_SESSION w3 = (Inr None, w3)))"
proof -
  have g: "getSessionToken w = refreshSessionToken w"
    using rec must_refresh by (rule getSessionToken_stale)
  have general: "\<exists>w3. getSessionToken w
                        = (Inl (Error ''GitHub session expired. Please reconnect to GitHub Copilot.''), w3)
                      \<and> getToken GITHUB_COPILOT w3 = (Inr None, w3)
                      \<and> getToken GITHUB_COPILOT_SESSION w3 = (Inr None, w3)"
    if auth: "getToken GITHUB_COPILOT w = (Inr (Some a), w)" "token a \<noteq> []"
      and fail: "getCopilotToken (token a) w = (Inl err, w2)"
      and kind: "str_includes (message err) ''401'' \<or> str_includes (message err) ''invalid''
                 \<or> str_includes (message err) ''expired''"
    for a err w2
  proof -
    let ?w3 = "w2\<lparr>logins := filter (\<lambda>l. \<not> in_realm GITHUB_COPILOT_SESSION l)
                            (filter (\<lambda>l. \<not> in_realm GITHUB_COPILOT l) (logins w2))\<rparr>"
    have "lm_available w" using auth(1) by (rule getToken_Some_available)
    moreover have "quiet w w2" using quiet_opD [OF quiet_getCopilotToken fail] .
    ultimately have av: "lm_available ?w3" by (simp add: quiet_def)
    have "refreshSessionToken w
          = (Inl (Error ''GitHub session expired. Please reconnect to GitHub Copilot.''), ?w3)"
      using auth fail kind by (rule refreshSessionToken_auth_error)
    then show ?thesis
      using g getToken_available [OF av] disconnected_logins
      by (intro exI [of _ ?w3]) simp
  qed
  have unauthorized: "\<exists>w3. getSessionToken w
                        = (Inl (Error ''GitHub session expired. Please reconnect to GitHub Copilot.''), w3)
                      \<and> getToken GITHUB_COPILOT w3 = (Inr None, w3)
                      \<and> getToken GITHUB_COPILOT_SESSION w3 = (Inr None, w3)"
    if auth: "getToken GITHUB_COPILOT w = (Inr (Some a), w)" "token a \<noteq> []"
      and reply: "net w = (ms, Resolves resp) # rest" "status resp = 401"
    for a ms resp rest
  proof -
    have "str_includes ''GitHub token is invalid or expired. Please re-authenticate.'' ''invalid''"
      by code_simp
    then show ?thesis
      using general [OF auth getCopilotToken_401 [OF reply, of "token a"]] by simp
  qed
  show ?thesis
    using g refreshSessionToken_no_auth [of w] general unauthorized
    by (intro conjI impI allI) (simp, blast, blast)
qed

theorem getSessionToken_refresh_failure_witness:
  "getSessionToken world_no_access
     = (Inl (Error ''Not authenticated. Please connect to GitHub Copilot.''), world_no_access)
   \<and> (\<exists>w3. getSessionToken world_401
              = (Inl (Error ''GitHub session expired. Please reconnect to GitHub Copilot.''), w3)
            \<and> getToken GITHUB_COPILOT w3 = (Inr None, w3)
            \<and> getToken GITHUB_COPILOT_SESSION w3 = (Inr None, w3))"
proof -
  have a: "getSessionToken world_no_access
           = (Inl (Error ''Not authenticated. Please connect to GitHub Copilot.''), world_no_access)"
    using getSessionToken_refresh_failure
            [OF getToken_examples(4), of "''session-old''"
               "[(''expiresAt'', JNum 1700000180000), (''storedAt'', JNum 1699999000000)]",
             THEN conjunct1]
          getToken_examples(5)
    by (simp add: world_no_access_def empty_world_def)
  have b: "\<exists>w3. getSessionToken world_401
              = (Inl (Error ''GitHub session expired. Please reconnect to GitHub Copilot.''), w3)
            \<and> getToken GITHUB_COPILOT w3 = (Inr None, w3)
            \<and> getToken GITHUB_COPILOT_SESSION w3 = (Inr None, w3)"
    using getSessionToken_refresh_failure
            [OF getToken_examples(6), of "''session-old''"
               "[(''expiresAt'', JNum 1700000180000), (''storedAt'', JNum 1699999000000)]",
             THEN conjunct2, THEN conjunct2, rule_format,
             of "\<lparr>token = ''gho_access'',
                  metadata = JObj [(''user'', JNull), (''storedAt'', JNum 1699990000000)]\<rparr>"
                40 reply_401 "[]"]
          getToken_examples(7)
    by (simp add: world_401_def empty_world_def reply_401_def)
  from a b show ?thesis by simp
qed


subsection \<open>C9: the catalog is never empty\<close>




subsection \<open>C2: one retry with a fallback model\<close>

text \<open>
  C2 as stated: a first rejection with status 400, 404 or 422 whose body mentions a
  model-related problem is retried once with another model, and any other rejection is
  never retried.  \<open>shouldRetryWithFallback\<close> looks for one of three words in the body:
  "model", "invalid", "unsupported".  A 400 whose body is "Invalid request body" does not
  mention a model, and \<open>chat\<close> still sends a second request.
\<close>

theorem chat_retry_policy_counterexample:
  "status reply_invalid_body = 400
   \<and> \<not> ok reply_invalid_body
   \<and> \<not> str_includes (toLowerCase (body_text reply_invalid_body)) ''model''
   \<and> posted_models (world_catalog\<lparr>net := [(20, Resolves reply_invalid_body)]\<rparr>) = []
   \<and> length (posted_models (snd (chat opts_4o (world_catalog\<lparr>net := [(20, Resolves reply_invalid_body)]\<rparr>)))) = 2"
proof -
  have m: "model opts_4o = Some (JStr ''gpt-4o'')" by (simp add: opts_4o_def)
  have k: "mentions_keyword (body_text reply_invalid_body)"
    "\<not> str_includes (toLowerCase (body_text reply_invalid_body)) ''model''"
    by (simp_all add: mentions_keyword_def reply_invalid_body_def body_text_def toLowerCase_def
          lower_char_def)
  have "\<exists>fbm r w5. chat opts_4o (world_catalog\<lparr>net := [(20, Resolves reply_invalid_body)]\<rparr>) = (r, w5)
       \<and> posted_models w5 = [Some (JStr ''gpt-4o''), Some fbm]
       \<and> truthy fbm \<and> fbm \<noteq> JStr ''gpt-4o''"
    using chat_first_rejection
            [OF getSessionToken_world_catalog resolveModel_world_catalog [folded m] normalize_opts_4o,
             of "[(20, Resolves reply_invalid_body)]" 20 reply_invalid_body "[]",
             THEN conjunct1]
          k world_catalog_facts
    by (simp add: reply_invalid_body_def ok_def m)
  then have "length (posted_models (snd (chat opts_4o (world_catalog\<lparr>net := [(20, Resolves reply_invalid_body)]\<rparr>)))) = 2"
    by auto
  with k world_catalog_facts show ?thesis
    by (simp add: reply_invalid_body_def ok_def)
qed

text \<open>
  C2 as amended, for a chat request whose session token, model and messages are in order
  and whose first response is a rejection: if its status is 400, 404 or 422 and its body,
  in lower case, contains "model", "invalid" or "unsupported", \<open>chat\<close> sends exactly one more
  chat request, with a (truthy) model other than the one just tried; any other rejection
  sends no further chat request and is thrown with the message of \<open>formatApiError\<close>; a 401
  is thrown with the fixed authentication message.  \<open>FALLBACK_MODELS\<close> is the shipped list.
\<close>

theorem chat_retry_policy:
  assumes "getSessionToken w = (Inr tok, w1)"
    and "resolveModel (model opts) w1 = (Inr rm, w2)"
    and "normalizeMessagesForVision (messages opts) = Inr normalized"
    and "net w2 = (ms, Resolves resp) # rest" and "\<not> ok resp"
    and "fallbackModels w = FALLBACK_MODELS"
  shows "((status resp = 400 \<or> status resp = 404 \<or> status resp = 422)
            \<and> mentions_keyword (body_text resp)
          \<longrightarrow> (\<exists>fbm r w5. chat opts w = (r, w5)
                  \<and> posted_models w5 = posted_models w @ [rm, Some fbm]
                  \<and> truthy fbm \<and> Some fbm \<noteq> rm))
       \<and> (\<not> ((status resp = 400 \<or> status resp = 404 \<or> status resp = 422)
               \<and> mentions_keyword (body_text resp))
          \<longrightarrow> (\<exists>w3. chat opts w
                       = (Inl (Error (formatApiError (status resp) (body_text resp))), w3)
                  \<and> posted_models w3 = posted_models w @ [rm]))
       \<and> (status resp = 401
          \<longrightarrow> (\<exists>w3. chat opts w
                       = (Inl (Error ''Copilot API error (401): Authentication failed. Please reconnect to GitHub Copilot.''), w3)
                  \<and> posted_models w3 = posted_models w @ [rm]))"
  using assms by (rule chat_first_rejection)

text \<open>
  The examples of the claim: a 404 "model not found" is retried with another model; a 401 is
  not retried.
\<close>

theorem chat_retry_policy_witness:
  "(\<exists>fbm r w5. chat opts_4o (world_catalog\<lparr>net := [(20, Resolves reply_model_not_found)]\<rparr>) = (r, w5)
       \<and> posted_models w5 = [Some (JStr ''gpt-4o''), Some fbm]
       \<and> truthy fbm \<and> fbm \<noteq> JStr ''gpt-4o'')
   \<and> (\<exists>w3. chat opts_4o (world_catalog\<lparr>net := [(20, Resolves reply_401)]\<rparr>)
             = (Inl (Error ''Copilot API error (401): Authentication failed. Please reconnect to GitHub Copilot.''), w3)
           \<and> posted_models w3 = [Some (JStr ''gpt-4o'')])"
proof -
  have m: "model opts_4o = Some (JStr ''gpt-4o'')" by (simp add: opts_4o_def)
  have k: "mentions_keyword (body_text reply_model_not_found)"
    by (simp add: mentions_keyword_def reply_model_not_found_def body_text_def toLowerCase_def
          lower_char_def)
  have a: "\<exists>fbm r w5. chat opts_4o (world_catalog\<lparr>net := [(20, Resolves reply_model_not_found)]\<rparr>) = (r, w5)
       \<and> posted_models w5 = [Some (JStr ''gpt-4o''), Some fbm]
       \<and> truthy fbm \<and> fbm \<noteq> JStr ''gpt-4o''"
    using chat_retry_policy
            [OF getSessionToken_world_catalog resolveModel_world_catalog [folded m] normalize_opts_4o,
             of "[(20, Resolves reply_model_not_found)]" 20 reply_model_not_found "[]",
             THEN conjunct1]
          k world_catalog_facts
    by (simp add: reply_model_not_found_def ok_def m)
  have b: "\<exists>w3. chat opts_4o (world_catalog\<lparr>net := [(20, Resolves reply_401)]\<rparr>)
             = (Inl (Error ''Copilot API error (401): Authentication failed. Please reconnect to GitHub Copilot.''), w3)
           \<and> posted_models w3 = [Some (JStr ''gpt-4o'')]"
    using chat_retry_policy
            [OF getSessionToken_world_catalog resolveModel_world_catalog [folded m] normalize_opts_4o,
             of "[(20, Resolves reply_401)]" 20 reply_401 "[]",
             THEN conjunct2, THEN conjunct2]
          world_catalog_facts
    by (simp add: reply_401_def ok_def m)
  from a b show ?thesis by simp
qed

end
